theory Spec2Isabelle
  imports Main "HOL-Library.AList"
begin

section \<open>Errors\<close>

text \<open>
  Every way the TypeScript/JavaScript sources stop early is a value of \<open>error\<close>:
  \<^item> \<open>AssertionError\<close>: a failed \<^verbatim>\<open>assert(...)\<close> of the parser's assert module;
  \<^item> \<open>Failure\<close>: the assert module's \<^verbatim>\<open>fail(message)\<close>;
  \<^item> \<open>Error\<close>: an explicit \<^verbatim>\<open>throw new Error(message)\<close>;
  \<^item> \<open>TypeError\<close>: reading a property of \<^verbatim>\<open>null\<close>/\<^verbatim>\<open>undefined\<close>, or iterating or
    mapping over \<^verbatim>\<open>undefined\<close>;
  \<^item> \<open>RangeError\<close>: \<^verbatim>\<open>String.prototype.repeat\<close> with a negative count.
  \<^verbatim>\<open>console.assert\<close> and \<^verbatim>\<open>console.error\<close> only print: they are not errors and
  do not change the control flow.
\<close>

datatype error = AssertionError | Failure string | Error string | TypeError | RangeError

section \<open>Parsed type expressions, tags and attributes\<close>

text \<open>
  The structured-comment parser (doctrine) is an external library. Its results are
  modelled as data: a parsed type expression (only the shapes the sources tell apart),
  a tag (\<^verbatim>\<open>title\<close>, and the optional \<^verbatim>\<open>name\<close>, \<^verbatim>\<open>type\<close> and \<^verbatim>\<open>description\<close>), and the
  result of \<^verbatim>\<open>doctrine.parse(text, { unwrap: true })\<close>: a description and the tags in
  comment order. The function \<^verbatim>\<open>doctrine.parse\<close> itself is a parameter of the model.
\<close>

datatype Type =
    NameExpression string
  | FunctionType "Type list" "Type option"
  | OtherType string

record Tag =
  tag_title :: string
  tag_name :: "string option"
  tag_type :: "Type option"
  tag_description :: "string option"

record DoctrineAst =
  ast_description :: string
  ast_tags :: "Tag list"

type_synonym DoctrineParse = "string \<Rightarrow> DoctrineAst"

text \<open>
  Modelled from the spec: \<^verbatim>\<open>base.ts\<close> (the enums \<^verbatim>\<open>AnnotationType\<close> and
  \<^verbatim>\<open>DefinitionType\<close>, and the types \<^verbatim>\<open>Attributes\<close> and \<^verbatim>\<open>Definition\<close>) is not among the
  sources. The members are the ones \<^verbatim>\<open>parseExterns.ts\<close> uses and section 3 of the
  specification lists; the string values are the literals the emitter compares kinds
  against (\<^verbatim>\<open>'class'\<close>, \<^verbatim>\<open>'interface'\<close>, \<^verbatim>\<open>'typedef'\<close>, \<^verbatim>\<open>'enum'\<close>, \<^verbatim>\<open>'const'\<close>,
  \<^verbatim>\<open>'function'\<close>, \<^verbatim>\<open>'property'\<close>, \<^verbatim>\<open>'object'\<close>).
\<close>

datatype AnnotationType =
  Typedef | Const | Property | Class | Enum | Interface | Function

datatype DefinitionType =
  DefFunction | DefClass | DefObject | DefProperty

fun annotationTypeValue :: "AnnotationType \<Rightarrow> string" where
  "annotationTypeValue Typedef = ''typedef''"
| "annotationTypeValue Const = ''const''"
| "annotationTypeValue Property = ''property''"
| "annotationTypeValue Class = ''class''"
| "annotationTypeValue Enum = ''enum''"
| "annotationTypeValue Interface = ''interface''"
| "annotationTypeValue Function = ''function''"

fun definitionTypeValue :: "DefinitionType \<Rightarrow> string" where
  "definitionTypeValue DefFunction = ''function''"
| "definitionTypeValue DefClass = ''class''"
| "definitionTypeValue DefObject = ''object''"
| "definitionTypeValue DefProperty = ''property''"

text \<open>An entry of \<^verbatim>\<open>attributes.props\<close> (one \<^verbatim>\<open>@property\<close> tag of a typedef).\<close>

record PropertyEntry =
  prop_name :: string
  prop_type :: Type
  prop_description :: "string option"

text \<open>
  \<^verbatim>\<open>Attributes\<close>: \<^verbatim>\<open>description\<close> and \<^verbatim>\<open>comments\<close> are always present, every other field
  is optional (\<open>None\<close> is \<^verbatim>\<open>undefined\<close>). \<^verbatim>\<open>paramTypes\<close> is a JavaScript object used as
  a dictionary from parameter names to types: an association list with unique keys,
  written with \<open>AList.update\<close> and read with \<open>map_of\<close>.
\<close>

record Attributes =
  description :: string
  comments :: "string list"
  type :: "AnnotationType option"
  typedefType :: "Type option"
  constType :: "Type option"
  propType :: "Type option"
  enumType :: "Type option"
  returnType :: "Type option"
  props :: "PropertyEntry list option"
  paramTypes :: "(string \<times> Type) list option"
  implements :: "Type option"
  extends :: "Type option"
  template :: "string list option"

text \<open>
  \<^verbatim>\<open>Definition\<close> is a union discriminated by \<^verbatim>\<open>type\<close>; every member has \<^verbatim>\<open>identifier\<close>
  and the optional \<^verbatim>\<open>attributes\<close> (the first and the last argument of each
  constructor). A function definition has \<^verbatim>\<open>params\<close> and, when it
  comes from a class body, \<^verbatim>\<open>isMethod\<close>, \<^verbatim>\<open>isStatic\<close>, \<^verbatim>\<open>isConstructor\<close> and the nested
  \<^verbatim>\<open>definitions\<close>; an object definition has \<^verbatim>\<open>props\<close>; a class definition has the
  optional \<^verbatim>\<open>superClass\<close> and its \<^verbatim>\<open>methods\<close>.
\<close>

datatype Definition =
    FunctionDefinition "string list" "string list"
      "bool option" "bool option" "bool option" "Definition list option"
      "Attributes option"
  | ObjectDefinition "string list" "string list" "Attributes option"
  | ClassDefinition "string list" "string list option" "Definition list" "Attributes option"
  | PropertyDefinition "string list" "Attributes option"

text \<open>\<^verbatim>\<open>definition.identifier\<close> and \<^verbatim>\<open>definition.attributes\<close>.\<close>

fun definitionIdentifier :: "Definition \<Rightarrow> string list" where
  "definitionIdentifier (FunctionDefinition i _ _ _ _ _ _) = i"
| "definitionIdentifier (ObjectDefinition i _ _) = i"
| "definitionIdentifier (ClassDefinition i _ _ _) = i"
| "definitionIdentifier (PropertyDefinition i _) = i"

fun definitionAttributes :: "Definition \<Rightarrow> Attributes option" where
  "definitionAttributes (FunctionDefinition _ _ _ _ _ _ a) = a"
| "definitionAttributes (ObjectDefinition _ _ a) = a"
| "definitionAttributes (ClassDefinition _ _ _ a) = a"
| "definitionAttributes (PropertyDefinition _ a) = a"

text \<open>\<^verbatim>\<open>definition.type\<close>.\<close>

fun definitionType :: "Definition \<Rightarrow> DefinitionType" where
  "definitionType (FunctionDefinition _ _ _ _ _ _ _) = DefFunction"
| "definitionType (ObjectDefinition _ _ _) = DefObject"
| "definitionType (ClassDefinition _ _ _ _) = DefClass"
| "definitionType (PropertyDefinition _ _) = DefProperty"

text \<open>
  \<^verbatim>\<open>definition.params\<close> and \<^verbatim>\<open>definition.props\<close>: \<^verbatim>\<open>undefined\<close> (\<open>None\<close>) on a
  definition of another kind.
\<close>

fun definitionParams :: "Definition \<Rightarrow> string list option" where
  "definitionParams (FunctionDefinition _ ps _ _ _ _ _) = Some ps"
| "definitionParams _ = None"

fun definitionProps :: "Definition \<Rightarrow> string list option" where
  "definitionProps (ObjectDefinition _ ps _) = Some ps"
| "definitionProps _ = None"

text \<open>The object spread \<^verbatim>\<open>{ ...definition, attributes: a }\<close>.\<close>

fun withAttributes :: "Definition \<Rightarrow> Attributes \<Rightarrow> Definition" where
  "withAttributes (FunctionDefinition i ps m s c ds _) a = FunctionDefinition i ps m s c ds (Some a)"
| "withAttributes (ObjectDefinition i ps _) a = ObjectDefinition i ps (Some a)"
| "withAttributes (ClassDefinition i sc ms _) a = ClassDefinition i sc ms (Some a)"
| "withAttributes (PropertyDefinition i _) a = PropertyDefinition i (Some a)"

section \<open>The comment tag interpreter (parseExterns.ts)\<close>

text \<open>
  Strings are lists of characters, a \<open>char\<close> being a code unit below 256. \<^verbatim>\<open>trim\<close>
  removes white space and line terminators at both ends: the six ASCII ones and the
  no-break space U+00A0 (the other Unicode white space is above 255 and is no \<open>char\<close>);
  \<^verbatim>\<open>split\<close> cuts at every occurrence of a one-character separator and never returns
  an empty array; \<^verbatim>\<open>join\<close> puts the separator between the parts.
\<close>

definition isWhiteSpace :: "char \<Rightarrow> bool" where
  "isWhiteSpace c \<longleftrightarrow>
     c = CHR '' '' \<or> c = CHR 0x09 \<or> c = CHR 0x0A \<or> c = CHR 0x0B \<or> c = CHR 0x0C \<or> c = CHR 0x0D
     \<or> c = CHR 0xA0"

definition trim :: "string \<Rightarrow> string" where
  "trim s = rev (dropWhile isWhiteSpace (rev (dropWhile isWhiteSpace s)))"

fun split :: "char \<Rightarrow> string \<Rightarrow> string list" where
  "split sep [] = [[]]"
| "split sep (c # cs) =
     (if c = sep then [] # split sep cs
      else (case split sep cs of
              [] \<Rightarrow> [[c]]
            | part # parts \<Rightarrow> (c # part) # parts))"

fun join :: "string \<Rightarrow> string list \<Rightarrow> string" where
  "join sep [] = []"
| "join sep [part] = part"
| "join sep (part # parts) = part @ sep @ join sep parts"

definition normalizeDescription :: "string \<Rightarrow> string" where
  "normalizeDescription d = join '' '' (map trim (split (CHR 0x0A) d))"

text \<open>
  Truthiness of an optional string: \<^verbatim>\<open>null\<close>, \<^verbatim>\<open>undefined\<close> and the empty string are
  falsy. An optional type is truthy exactly when it is present.
\<close>

fun truthy :: "string option \<Rightarrow> bool" where
  "truthy None = False"
| "truthy (Some s) = (s \<noteq> [])"

text \<open>
  The body of the \<^verbatim>\<open>switch (tag.title)\<close> of \<^verbatim>\<open>parseBlockComment\<close>: one tag applied to
  the attributes collected so far. The \<^verbatim>\<open>assert\<close>s come first in each case, in the
  order of the source.
\<close>

definition applyTag :: "Attributes \<Rightarrow> Tag \<Rightarrow> error + Attributes" where
  "applyTag attributes tag =
    (if tag_title tag = ''summary'' \<or> tag_title tag = ''description'' then
       (case tag_description tag of
          None \<Rightarrow> Inl AssertionError
        | Some d \<Rightarrow> if d = [] then Inl AssertionError
                    else Inr (attributes\<lparr>description := normalizeDescription d\<rparr>))
     else if tag_title tag = ''typedef'' then
       (case tag_type tag of
          None \<Rightarrow> Inl AssertionError
        | Some t \<Rightarrow> Inr (attributes\<lparr>type := Some Typedef, typedefType := Some t\<rparr>))
     else if tag_title tag = ''property'' then
       (if \<not> truthy (tag_name tag) then Inl AssertionError
        else (case tag_type tag of
          None \<Rightarrow> Inl AssertionError
        | Some t \<Rightarrow>
            Inr (attributes\<lparr>props := Some
              ((case props attributes of None \<Rightarrow> [] | Some ps \<Rightarrow> ps) @
               [\<lparr>prop_name = the (tag_name tag), prop_type = t,
                 prop_description =
                   (if truthy (tag_description tag)
                    then Some (normalizeDescription (the (tag_description tag)))
                    else None)\<rparr>])\<rparr>)))
     else if tag_title tag = ''const'' then
       Inr (attributes\<lparr>type := Some Const, constType := tag_type tag\<rparr>)
     else if tag_title tag = ''namespace'' then
       Inr (attributes\<lparr>type := Some Const, constType := None\<rparr>)
     else if tag_title tag = ''define'' then
       (let attributes = attributes\<lparr>type := Some Const, constType := tag_type tag\<rparr>
        in if truthy (tag_description tag)
           then Inr (attributes\<lparr>description := normalizeDescription (the (tag_description tag))\<rparr>)
           else Inr attributes)
     else if tag_title tag = ''protected'' \<or> tag_title tag = ''type'' then
       Inr (attributes\<lparr>type := Some Property, propType := tag_type tag\<rparr>)
     else if tag_title tag = ''constructor'' then
       Inr (attributes\<lparr>type := Some Class\<rparr>)
     else if tag_title tag = ''enum'' then
       Inr (attributes\<lparr>type := Some Enum, enumType := tag_type tag\<rparr>)
     else if tag_title tag = ''interface'' then
       Inr (attributes\<lparr>type := Some Interface\<rparr>)
     else if tag_title tag = ''param'' then
       (if \<not> truthy (tag_name tag) then Inl AssertionError
        else (case tag_type tag of
          None \<Rightarrow> Inl AssertionError
        | Some t \<Rightarrow>
            (let attributes = attributes\<lparr>paramTypes := Some
                   (AList.update (the (tag_name tag)) t
                      (case paramTypes attributes of None \<Rightarrow> [] | Some pts \<Rightarrow> pts))\<rparr>
             in if truthy (tag_description tag)
                then Inr (attributes\<lparr>comments := comments attributes @
                       [''@param '' @ the (tag_name tag) @ '' '' @
                        normalizeDescription (the (tag_description tag))]\<rparr>)
                else Inr attributes)))
     else if tag_title tag = ''return'' then
       (let attributes = attributes\<lparr>type := Some Function, returnType := tag_type tag\<rparr>
        in if truthy (tag_description tag)
           then Inr (attributes\<lparr>comments := comments attributes @
                  [''@returnType '' @ normalizeDescription (the (tag_description tag))]\<rparr>)
           else Inr attributes)
     else if tag_title tag = ''implements'' then
       (case tag_type tag of
          None \<Rightarrow> Inl AssertionError
        | Some t \<Rightarrow> Inr (attributes\<lparr>implements := Some t\<rparr>))
     else if tag_title tag = ''extends'' then
       (case tag_type tag of
          None \<Rightarrow> Inl AssertionError
        | Some t \<Rightarrow> Inr (attributes\<lparr>extends := Some t\<rparr>))
     else if tag_title tag = ''template'' then
       (if \<not> truthy (tag_description tag) then Inl AssertionError
        else Inr (attributes\<lparr>template := Some (split (CHR '','') (the (tag_description tag)))\<rparr>))
     else Inr attributes)"

text \<open>The loop \<^verbatim>\<open>for (const tag of ast.tags)\<close>: the first failing tag ends it.\<close>

fun applyTags :: "Attributes \<Rightarrow> Tag list \<Rightarrow> error + Attributes" where
  "applyTags attributes [] = Inr attributes"
| "applyTags attributes (tag # tags) =
     (case applyTag attributes tag of
        Inl e \<Rightarrow> Inl e
      | Inr attributes' \<Rightarrow> applyTags attributes' tags)"

text \<open>A comment of the syntax tree (\<^verbatim>\<open>estree.Comment\<close>): its type and its text.\<close>

datatype CommentType = Block | Line

record Comment =
  comment_type :: CommentType
  comment_value :: string

definition initialAttributes :: "string \<Rightarrow> Attributes" where
  "initialAttributes d =
     \<lparr>description = d, comments = [], type = None, typedefType = None, constType = None,
      propType = None, enumType = None, returnType = None, props = None, paramTypes = None,
      implements = None, extends = None, template = None\<rparr>"

definition parseBlockComment :: "DoctrineParse \<Rightarrow> Comment \<Rightarrow> error + Attributes" where
  "parseBlockComment doctrine_parse comment =
     (if comment_type comment \<noteq> Block then Inl AssertionError
      else
        (let ast = doctrine_parse (comment_value comment)
         in case applyTags (initialAttributes (normalizeDescription (ast_description ast)))
                  (ast_tags ast) of
              Inl e \<Rightarrow> Inl e
            | Inr attributes \<Rightarrow>
                if description attributes \<noteq> []
                then Inr (attributes\<lparr>comments := description attributes # comments attributes\<rparr>)
                else Inr attributes))"

text \<open>
  \<^verbatim>\<open>leadingComments\<close> is \<^verbatim>\<open>undefined\<close> (\<open>None\<close>) on a statement that no comment leads.
\<close>

definition parseLeadingComments ::
  "DoctrineParse \<Rightarrow> Comment list option \<Rightarrow> error + Attributes" where
  "parseLeadingComments doctrine_parse leadingComments =
     (case leadingComments of
        None \<Rightarrow> Inr (initialAttributes [])
      | Some cs \<Rightarrow>
          if \<not> (length cs > 0) then Inl AssertionError
          else parseBlockComment doctrine_parse (cs ! (length cs - 1)))"

section \<open>The definition extractor (parseExterns.ts)\<close>

text \<open>
  The syntax tree of the external parser (esprima, ESTree), as far as the extractor
  reads it. A function parameter is a pattern. An expression is one of the node types
  the extractor tells apart, or any other node type, kept by its name; a member
  expression has its object and its property; a function expression has its
  parameters; an object expression is the list of the keys of its properties; a class
  expression has its optional superclass and the method definitions of its body. A
  method definition has its key, its kind (\<^verbatim>\<open>"constructor"\<close>, \<^verbatim>\<open>"method"\<close>, \<^verbatim>\<open>"get"\<close>,
  \<^verbatim>\<open>"set"\<close>), its static flag, the parameters and the body statements of its function,
  and its leading comments. A statement is an expression statement, a function
  declaration (its optional id and its parameters) or any other statement or module
  declaration, kept by the name of its node type; each has its leading comments.
\<close>

datatype Pattern =
    IdentifierPattern string
  | RestElement Pattern
  | OtherPattern string

datatype Expression =
    Identifier string
  | Literal string
  | ThisExpression
  | MemberExpression Expression Expression
  | FunctionExpression "Pattern list"
  | ObjectExpression "Expression list"
  | ClassExpression "Expression option" "MethodDefinition list"
  | AssignmentExpression Expression Expression
  | OtherExpression string
and MethodDefinition =
    MethodDefinition Expression string bool "Pattern list" "Statement list"
      "Comment list option"
and Statement =
    ExpressionStatement Expression "Comment list option"
  | FunctionDeclaration "Expression option" "Pattern list" "Comment list option"
  | OtherStatement string "Comment list option"

text \<open>\<^verbatim>\<open>node.type\<close> of an expression and of a statement, \<^verbatim>\<open>statement.leadingComments\<close>.\<close>

fun expressionType :: "Expression \<Rightarrow> string" where
  "expressionType (Identifier _) = ''Identifier''"
| "expressionType (Literal _) = ''Literal''"
| "expressionType ThisExpression = ''ThisExpression''"
| "expressionType (MemberExpression _ _) = ''MemberExpression''"
| "expressionType (FunctionExpression _) = ''FunctionExpression''"
| "expressionType (ObjectExpression _) = ''ObjectExpression''"
| "expressionType (ClassExpression _ _) = ''ClassExpression''"
| "expressionType (AssignmentExpression _ _) = ''AssignmentExpression''"
| "expressionType (OtherExpression t) = t"

fun statementType :: "Statement \<Rightarrow> string" where
  "statementType (ExpressionStatement _ _) = ''ExpressionStatement''"
| "statementType (FunctionDeclaration _ _ _) = ''FunctionDeclaration''"
| "statementType (OtherStatement t _) = t"

fun leadingComments :: "Statement \<Rightarrow> Comment list option" where
  "leadingComments (ExpressionStatement _ cs) = cs"
| "leadingComments (FunctionDeclaration _ _ cs) = cs"
| "leadingComments (OtherStatement _ cs) = cs"

text \<open>
  \<^verbatim>\<open>array.map(f)\<close> with a callback that may throw: the first exception ends the
  map. \<^verbatim>\<open>array.filter(f)\<close> likewise.
\<close>

fun mapE :: "('a \<Rightarrow> error + 'b) \<Rightarrow> 'a list \<Rightarrow> error + 'b list" where
  "mapE f [] = Inr []"
| "mapE f (x # xs) =
     (case f x of
        Inl e \<Rightarrow> Inl e
      | Inr y \<Rightarrow> (case mapE f xs of Inl e \<Rightarrow> Inl e | Inr ys \<Rightarrow> Inr (y # ys)))"

fun filterE :: "('a \<Rightarrow> error + bool) \<Rightarrow> 'a list \<Rightarrow> error + 'a list" where
  "filterE f [] = Inr []"
| "filterE f (x # xs) =
     (case f x of
        Inl e \<Rightarrow> Inl e
      | Inr keep \<Rightarrow>
          (case filterE f xs of
             Inl e \<Rightarrow> Inl e
           | Inr ys \<Rightarrow> Inr (if keep then x # ys else ys)))"

lemma mapE_cong [fundef_cong]:
  "xs = ys \<Longrightarrow> (\<And>x. x \<in> set ys \<Longrightarrow> f x = g x) \<Longrightarrow> mapE f xs = mapE g ys"
  by (induction ys arbitrary: xs) (auto split: sum.splits)

fun staticMemberExpressionToPath :: "Expression \<Rightarrow> error + string list" where
  "staticMemberExpressionToPath (Identifier n) = Inr [n]"
| "staticMemberExpressionToPath (MemberExpression object property) =
     (case property of
        Identifier propertyName \<Rightarrow>
          (case object of
             MemberExpression _ _ \<Rightarrow>
               (case staticMemberExpressionToPath object of
                  Inl e \<Rightarrow> Inl e
                | Inr path \<Rightarrow> Inr (path @ [propertyName]))
           | Identifier objectName \<Rightarrow> Inr [objectName, propertyName]
           | ThisExpression \<Rightarrow> Inr [''this'', propertyName]
           | _ \<Rightarrow> Inl (Failure
               ''Expected either member expression, identifier, or `this` as object in path''))
      | _ \<Rightarrow> Inl AssertionError)"
| "staticMemberExpressionToPath _ = Inl AssertionError"

text \<open>
  The parameter callbacks: a method accepts an identifier or a rest element around an
  identifier; a function declaration and a function expression accept an identifier.
\<close>

fun methodParamName :: "Pattern \<Rightarrow> error + string" where
  "methodParamName (RestElement argument) =
     (case argument of IdentifierPattern n \<Rightarrow> Inr n | _ \<Rightarrow> Inl AssertionError)"
| "methodParamName (IdentifierPattern n) = Inr n"
| "methodParamName (OtherPattern _) = Inl AssertionError"

fun paramName :: "Pattern \<Rightarrow> error + string" where
  "paramName (IdentifierPattern n) = Inr n"
| "paramName _ = Inl AssertionError"

definition parseFunctionDeclaration ::
  "Expression option \<Rightarrow> Pattern list \<Rightarrow> error + Definition" where
  "parseFunctionDeclaration declId declParams =
     (case declId of
        None \<Rightarrow> Inl AssertionError
      | Some ident \<Rightarrow>
          (case staticMemberExpressionToPath ident of
             Inl e \<Rightarrow> Inl e
           | Inr path \<Rightarrow>
               (case mapE paramName declParams of
                  Inl e \<Rightarrow> Inl e
                | Inr ps \<Rightarrow> Inr (FunctionDefinition path ps None None None None None))))"

definition parseMemberExpression :: "Expression \<Rightarrow> error + Definition" where
  "parseMemberExpression expression =
     (case staticMemberExpressionToPath expression of
        Inl e \<Rightarrow> Inl e
      | Inr path \<Rightarrow> Inr (PropertyDefinition path None))"

text \<open>The key callback of an object expression.\<close>

fun propertyKeyName :: "Expression \<Rightarrow> error + string" where
  "propertyKeyName (Identifier n) = Inr n"
| "propertyKeyName (Literal v) = Inr v"
| "propertyKeyName key = Inl (Error (''Unrecognited key type '' @ expressionType key))"

text \<open>The first filter of \<^verbatim>\<open>parseBody\<close> and the callback of its last filter.\<close>

definition isExpressionOrFunction :: "Statement \<Rightarrow> bool" where
  "isExpressionOrFunction statement \<longleftrightarrow>
     statementType statement = ''ExpressionStatement'' \<or>
     statementType statement = ''FunctionDeclaration''"

definition keepDefinition :: "Definition \<Rightarrow> error + bool" where
  "keepDefinition d =
     (if definitionType d = DefClass then Inr True
      else (case definitionAttributes d of
              None \<Rightarrow> Inl TypeError
            | Some a \<Rightarrow> Inr (type a \<noteq> Some Const \<or> constType a \<noteq> None)))"

text \<open>
  \<^verbatim>\<open>parseMethodDefinition\<close>, \<^verbatim>\<open>parseAssignmentExpression\<close>, \<^verbatim>\<open>parseStatement\<close> and
  \<^verbatim>\<open>parseBody\<close> call each other: a class expression holds methods, whose bodies hold
  statements. The fields of an object literal are evaluated in the order they are
  written, so the first exception is the one of the first failing field.
\<close>

fun parseMethodDefinition :: "DoctrineParse \<Rightarrow> MethodDefinition \<Rightarrow> error + Definition"
  and parseAssignmentExpression :: "DoctrineParse \<Rightarrow> Expression \<Rightarrow> Expression \<Rightarrow> error + Definition"
  and parseStatement :: "DoctrineParse \<Rightarrow> Statement \<Rightarrow> error + Definition"
  and parseBody :: "DoctrineParse \<Rightarrow> Statement list \<Rightarrow> error + Definition list"
where
  "parseMethodDefinition dp (MethodDefinition key kind static ps body cs) =
     (case key of
        Identifier keyName \<Rightarrow>
          (case mapE methodParamName ps of
             Inl e \<Rightarrow> Inl e
           | Inr names \<Rightarrow>
               (case parseBody dp body of
                  Inl e \<Rightarrow> Inl e
                | Inr ds \<Rightarrow>
                    (case parseLeadingComments dp cs of
                       Inl e \<Rightarrow> Inl e
                     | Inr a \<Rightarrow>
                         Inr (FunctionDefinition [keyName] names
                                (Some (kind = ''method'')) (Some static)
                                (Some (kind = ''constructor'')) (Some ds) (Some a)))))
      | _ \<Rightarrow> Inl AssertionError)"
| "parseAssignmentExpression dp left right =
     (case left of
        MemberExpression _ _ \<Rightarrow>
          (case staticMemberExpressionToPath left of
             Inl e \<Rightarrow> Inl e
           | Inr path \<Rightarrow>
               (case right of
                  FunctionExpression ps \<Rightarrow>
                    (case mapE paramName ps of
                       Inl e \<Rightarrow> Inl e
                     | Inr names \<Rightarrow> Inr (FunctionDefinition path names None None None None None))
                | ObjectExpression keys \<Rightarrow>
                    (case mapE propertyKeyName keys of
                       Inl e \<Rightarrow> Inl e
                     | Inr names \<Rightarrow> Inr (ObjectDefinition path names None))
                | ClassExpression superClass methods \<Rightarrow>
                    (case (case superClass of
                             None \<Rightarrow> Inr None
                           | Some sc \<Rightarrow>
                               (case staticMemberExpressionToPath sc of
                                  Inl e \<Rightarrow> Inl e
                                | Inr scPath \<Rightarrow> Inr (Some scPath))) of
                       Inl e \<Rightarrow> Inl e
                     | Inr scPath \<Rightarrow>
                         (case mapE (parseMethodDefinition dp) methods of
                            Inl e \<Rightarrow> Inl e
                          | Inr ms \<Rightarrow> Inr (ClassDefinition path scPath ms None)))
                | _ \<Rightarrow> Inl (Error (''Unknown expression type '' @ expressionType right @
                                   '' for assignment value''))))
      | _ \<Rightarrow> Inl AssertionError)"
| "parseStatement dp (FunctionDeclaration declId declParams cs) =
     parseFunctionDeclaration declId declParams"
| "parseStatement dp (ExpressionStatement expression cs) =
     (case expression of
        AssignmentExpression left right \<Rightarrow> parseAssignmentExpression dp left right
      | MemberExpression _ _ \<Rightarrow> parseMemberExpression expression
      | _ \<Rightarrow> Inl (Error (''Unknown expression type '' @ expressionType expression)))"
| "parseStatement dp (OtherStatement t cs) = Inl AssertionError"
| "parseBody dp statements =
     (case mapE (\<lambda>statement.
                   case parseStatement dp statement of
                     Inl e \<Rightarrow> Inl e
                   | Inr d \<Rightarrow>
                       (case parseLeadingComments dp (leadingComments statement) of
                          Inl e \<Rightarrow> Inl e
                        | Inr a \<Rightarrow> Inr (withAttributes d a)))
                (filter isExpressionOrFunction statements) of
        Inl e \<Rightarrow> Inl e
      | Inr ds \<Rightarrow> filterE keepDefinition ds)"

section \<open>The tree utilities (treeUtils.ts)\<close>

text \<open>
  \<^verbatim>\<open>getOrCreateNode\<close> and \<^verbatim>\<open>getOrCreateNodeAtPath\<close> mutate \<^verbatim>\<open>Map\<close> objects that are
  reached through several references (\<^verbatim>\<open>nodes = node.children\<close>), so the objects live in
  an explicit store. A reference is a number. A \<^verbatim>\<open>Map\<close> object is the list of its
  entries in insertion order, with unique keys: \<^verbatim>\<open>get\<close> is \<open>map_of\<close>, \<^verbatim>\<open>has\<close> holds when
  \<^verbatim>\<open>get\<close> finds an entry, \<^verbatim>\<open>set\<close> is \<open>AList.update\<close> (a new key goes to the end). A
  \<^verbatim>\<open>Node\<close> object has its \<^verbatim>\<open>name\<close>, its optional \<^verbatim>\<open>definition\<close> and the reference of its
  \<^verbatim>\<open>children\<close> map. The store counts the objects allocated so far; a new object gets
  the next reference.
\<close>

type_synonym MapRef = nat
type_synonym NodeRef = nat

record NodeObject =
  node_name :: string
  node_definition :: "Definition option"
  node_children :: MapRef

record Store =
  mapObjects :: "MapRef \<Rightarrow> (string \<times> NodeRef) list"
  nodeObjects :: "NodeRef \<Rightarrow> NodeObject"
  mapCount :: nat
  nodeCount :: nat

text \<open>\<^verbatim>\<open>new Map()\<close> and an object literal for a node.\<close>

definition newMap :: "Store \<Rightarrow> MapRef \<times> Store" where
  "newMap s =
     (mapCount s,
      s\<lparr>mapObjects := (mapObjects s)(mapCount s := []), mapCount := mapCount s + 1\<rparr>)"

definition newNode :: "Store \<Rightarrow> NodeObject \<Rightarrow> NodeRef \<times> Store" where
  "newNode s obj =
     (nodeCount s,
      s\<lparr>nodeObjects := (nodeObjects s)(nodeCount s := obj), nodeCount := nodeCount s + 1\<rparr>)"

definition mapGet :: "Store \<Rightarrow> MapRef \<Rightarrow> string \<Rightarrow> NodeRef option" where
  "mapGet s m key = map_of (mapObjects s m) key"

definition mapSet :: "Store \<Rightarrow> MapRef \<Rightarrow> string \<Rightarrow> NodeRef \<Rightarrow> Store" where
  "mapSet s m key node =
     s\<lparr>mapObjects := (mapObjects s)(m := AList.update key node (mapObjects s m))\<rparr>"

definition getOrCreateNode :: "Store \<Rightarrow> MapRef \<Rightarrow> string \<Rightarrow> NodeRef \<times> Store" where
  "getOrCreateNode s nodes name =
     (case mapGet s nodes name of
        Some node \<Rightarrow> (node, s)
      | None \<Rightarrow>
          (let (m, s1) = newMap s;
               (node, s2) = newNode s1
                  \<lparr>node_name = name, node_definition = None, node_children = m\<rparr>;
               s3 = mapSet s2 nodes name node
           in (node, s3)))"

text \<open>
  The loop of \<^verbatim>\<open>getOrCreateNodeAtPath\<close>, with its variables \<^verbatim>\<open>nodes\<close> and \<^verbatim>\<open>node\<close> (at
  first \<^verbatim>\<open>null\<close>), over the parts of the path that are left.
\<close>

fun getOrCreateLoop ::
  "Store \<Rightarrow> MapRef \<Rightarrow> NodeRef option \<Rightarrow> string list \<Rightarrow> NodeRef option \<times> Store" where
  "getOrCreateLoop s nodes node [] = (node, s)"
| "getOrCreateLoop s nodes node (part # path) =
     (let (node', s') = getOrCreateNode s nodes part
      in getOrCreateLoop s' (node_children (nodeObjects s' node')) (Some node') path)"

definition getOrCreateNodeAtPath ::
  "Store \<Rightarrow> MapRef \<Rightarrow> string list \<Rightarrow> error + (NodeRef option \<times> Store)" where
  "getOrCreateNodeAtPath s root path =
     (if \<not> (length path > 0) then Inl AssertionError
      else Inr (getOrCreateLoop s root None path))"

fun getLoop :: "Store \<Rightarrow> MapRef \<Rightarrow> NodeRef option \<Rightarrow> string list \<Rightarrow> NodeRef option" where
  "getLoop s nodes node [] = node"
| "getLoop s nodes node (part # path) =
     (case mapGet s nodes part of
        None \<Rightarrow> None
      | Some node' \<Rightarrow> getLoop s (node_children (nodeObjects s node')) (Some node') path)"

definition getNodeAtPath :: "Store \<Rightarrow> MapRef \<Rightarrow> string list \<Rightarrow> NodeRef option" where
  "getNodeAtPath s root path = getLoop s root None path"

section \<open>The writers of the declaration emitter\<close>

text \<open>
  \<^verbatim>\<open>AbstractWriter\<close> holds the indentation level; \<^verbatim>\<open>StringWriter\<close> appends every line
  to a string buffer, \<^verbatim>\<open>StreamWriter\<close> hands every line to \<^verbatim>\<open>stream.write\<close>. The stream
  is the list of the chunks written to it so far. The level is a JavaScript number
  changed only by \<^verbatim>\<open>++\<close> and \<^verbatim>\<open>--\<close>, hence an integer that may become negative.
\<close>

datatype Writer =
    StringWriter (level: int) (buffer: string)
  | StreamWriter (level: int) (stream: "string list")

definition newline :: char where
  "newline = CHR 0x0A"

definition increaseLevel :: "Writer \<Rightarrow> Writer" where
  "increaseLevel w =
     (case w of StringWriter l b \<Rightarrow> StringWriter (l + 1) b
              | StreamWriter l s \<Rightarrow> StreamWriter (l + 1) s)"

definition decreaseLevel :: "Writer \<Rightarrow> Writer" where
  "decreaseLevel w =
     (case w of StringWriter l b \<Rightarrow> StringWriter (l - 1) b
              | StreamWriter l s \<Rightarrow> StreamWriter (l - 1) s)"

text \<open>\<^verbatim>\<open>'  '.repeat(this.level)\<close>: a negative count raises a RangeError.\<close>

definition getIndentation :: "Writer \<Rightarrow> error + string" where
  "getIndentation w =
     (if level w < 0 then Inl RangeError
      else Inr (concat (replicate (nat (level w)) ''  '')))"

text \<open>
  The result of a writing operation: it returned with the writer in the given state, or
  it threw with the writer as it was when the exception left the operation (lines
  already written stay written, the level is whatever it was).
\<close>

datatype outcome = Done Writer | Thrown error Writer

definition writeLine :: "Writer \<Rightarrow> string \<Rightarrow> outcome" where
  "writeLine w str =
     (case getIndentation w of
        Inl e \<Rightarrow> Thrown e w
      | Inr indent \<Rightarrow>
          (case w of
             StringWriter l b \<Rightarrow> Done (StringWriter l (b @ indent @ str @ [newline]))
           | StreamWriter l s \<Rightarrow> Done (StreamWriter l (s @ [indent @ str @ [newline]]))))"

section \<open>The declaration emitter\<close>

text \<open>
  During emission the tree is only read, so the emitter works on the tree as a value: a
  node has its \<^verbatim>\<open>name\<close>, its \<^verbatim>\<open>definition\<close> (\<open>defn\<close>; \<open>None\<close> is \<^verbatim>\<open>null\<close>) and its
  \<^verbatim>\<open>children\<close>, a \<^verbatim>\<open>Map\<close> given by its entries (key and child) in insertion order;
  \<^verbatim>\<open>children.get(key)\<close> is \<open>map_of\<close>, \<^verbatim>\<open>children.values()\<close> is \<open>map snd\<close>.
  The emitter tests \<^verbatim>\<open>node.definition === null\<close>: the trees it is given mark a node
  without definition by \<^verbatim>\<open>null\<close>, and a node whose \<^verbatim>\<open>definition\<close> is \<^verbatim>\<open>undefined\<close> is
  not a value of this type.
\<close>

datatype Node =
  Node (name: string) (defn: "Definition option") (children: "(string \<times> Node) list")

text \<open>
  Modelled from the spec: \<^verbatim>\<open>generateType.js\<close> is not among the sources; the
  specification describes it as a pure function from a parsed type expression to a
  type string. It is a parameter of the emitter. Its argument is what the emitter
  passes: a parsed type, \<^verbatim>\<open>undefined\<close>, or the string \<^verbatim>\<open>'any'\<close>. The conversion of a
  parsed type to a string, which \<^verbatim>\<open>' extends ' + attributes.extends\<close> performs, is a
  parameter too.
\<close>

datatype RawType = TypeValue Type | UndefinedValue | StringValue string

record Environment =
  generateType :: "RawType \<Rightarrow> string"
  toString :: "Type \<Rightarrow> string"

text \<open>
  Sequencing: the next operation runs on the writer the previous one returned; an
  exception ends the sequence. \<open>forEach\<close> is a \<^verbatim>\<open>for ... of\<close> loop whose body writes.
\<close>

definition andThen :: "outcome \<Rightarrow> (Writer \<Rightarrow> outcome) \<Rightarrow> outcome" where
  "andThen r f = (case r of Done w \<Rightarrow> f w | Thrown e w \<Rightarrow> Thrown e w)"

lemma andThen_cong [fundef_cong]:
  "r = r' \<Longrightarrow> (\<And>w. r' = Done w \<Longrightarrow> f w = g w) \<Longrightarrow> andThen r f = andThen r' g"
  by (cases r') (simp_all add: andThen_def)

fun forEach :: "'a list \<Rightarrow> ('a \<Rightarrow> Writer \<Rightarrow> outcome) \<Rightarrow> Writer \<Rightarrow> outcome" where
  "forEach [] body w = Done w"
| "forEach (x # xs) body w = andThen (body x w) (forEach xs body)"

text \<open>An optional type as the argument of \<^verbatim>\<open>generateType\<close>.\<close>

definition rawType :: "Type option \<Rightarrow> RawType" where
  "rawType t = (case t of None \<Rightarrow> UndefinedValue | Some ty \<Rightarrow> TypeValue ty)"

definition writeComments :: "Writer \<Rightarrow> string list \<Rightarrow> outcome" where
  "writeComments w cs =
     (if length cs > 0 then
        andThen (writeLine w ''/**'')
          (\<lambda>w. andThen (forEach cs (\<lambda>comment w. writeLine w ('' * '' @ comment)) w)
            (\<lambda>w. writeLine w '' */''))
      else Done w)"

text \<open>
  \<^verbatim>\<open>definition.attributes.type || definition.type\<close>: the kind by which a node is
  dispatched. Reading \<^verbatim>\<open>type\<close> of missing attributes is a TypeError.
\<close>

definition resolvedType :: "Definition \<Rightarrow> error + string" where
  "resolvedType d =
     (case definitionAttributes d of
        None \<Rightarrow> Inl TypeError
      | Some attributes \<Rightarrow>
          Inr (case type attributes of
                 Some t \<Rightarrow> annotationTypeValue t
               | None \<Rightarrow> definitionTypeValue (definitionType d)))"

text \<open>
  \<^verbatim>\<open>writeFunctionNode(writer, node, keyword = 'function', isConstructor = false)\<close>. The
  keyword is \<open>None\<close> for \<^verbatim>\<open>null\<close>; the callers that pass no keyword pass the default.
  \<^verbatim>\<open>paramTypes[name]\<close> reads the entries the comment parser stored; the members a
  JavaScript object inherits (a parameter named \<^verbatim>\<open>constructor\<close> or \<^verbatim>\<open>toString\<close>) are
  not modelled, which concerns the text of the parameter list only.
\<close>

definition writeFunctionNode ::
  "Environment \<Rightarrow> Writer \<Rightarrow> Node \<Rightarrow> string option \<Rightarrow> bool \<Rightarrow> outcome" where
  "writeFunctionNode env w node keyword isConstructor =
     (case defn node of
        None \<Rightarrow> Thrown TypeError w
      | Some d \<Rightarrow>
          (case definitionAttributes d of
             None \<Rightarrow> Thrown TypeError w
           | Some attributes \<Rightarrow>
               (let pts = (case paramTypes attributes of None \<Rightarrow> [] | Some pts \<Rightarrow> pts)
                in andThen (writeComments w (comments attributes))
                  (\<lambda>w. case definitionParams d of
                          None \<Rightarrow> Thrown TypeError w
                        | Some ps \<Rightarrow>
                            (let params = join '', ''
                                   (map (\<lambda>param. param @ '': '' @ generateType env
                                           (case map_of pts param of
                                              Some t \<Rightarrow> TypeValue t
                                            | None \<Rightarrow> StringValue ''any'')) ps);
                                 returnType =
                                   (case returnType attributes of
                                      Some t \<Rightarrow> generateType env (TypeValue t)
                                    | None \<Rightarrow> ''void'');
                                 functionName = (if isConstructor then ''constructor'' else name node)
                             in writeLine w
                                  ((case keyword of
                                      None \<Rightarrow> []
                                    | Some k \<Rightarrow> if k = [] then [] else k @ '' '') @
                                   functionName @ ''('' @ params @ '')'' @
                                   (if isConstructor then '';''
                                    else '': '' @ returnType @ '';'')))))))"

text \<open>
  \<^verbatim>\<open>writeEnumNode\<close>: \<^verbatim>\<open>console.assert\<close> only prints; on a definition without \<^verbatim>\<open>props\<close>
  the loop \<^verbatim>\<open>for (const prop of definition.props)\<close> raises a TypeError, after the
  comments and the opening line are written and the level is increased.
\<close>

definition writeEnumNode :: "Writer \<Rightarrow> Node \<Rightarrow> outcome" where
  "writeEnumNode w node =
     (case defn node of
        None \<Rightarrow> Thrown TypeError w
      | Some d \<Rightarrow>
          (case definitionAttributes d of
             None \<Rightarrow> Thrown TypeError w
           | Some attributes \<Rightarrow>
               andThen (writeComments w (comments attributes))
                 (\<lambda>w. andThen (writeLine w (''enum '' @ name node @ '' {''))
                   (\<lambda>w. case definitionProps d of
                           None \<Rightarrow> Thrown TypeError (increaseLevel w)
                         | Some ps \<Rightarrow>
                             andThen (forEach ps (\<lambda>prop w. writeLine w (prop @ '','')) (increaseLevel w))
                               (\<lambda>w. writeLine (decreaseLevel w) ''}'')))))"

definition writeTypedefNode :: "Environment \<Rightarrow> Writer \<Rightarrow> Node \<Rightarrow> outcome" where
  "writeTypedefNode env w node =
     (case defn node of
        None \<Rightarrow> Thrown TypeError w
      | Some d \<Rightarrow>
          (case definitionAttributes d of
             None \<Rightarrow> Thrown TypeError w
           | Some attributes \<Rightarrow>
               andThen (writeComments w (comments attributes))
                 (\<lambda>w. case props attributes of
                         Some ps \<Rightarrow>
                           andThen (writeLine w (''interface '' @ name node @ '' {''))
                             (\<lambda>w. andThen
                                (forEach ps
                                   (\<lambda>prop w.
                                      andThen
                                        (if truthy (prop_description prop)
                                         then writeComments w [the (prop_description prop)]
                                         else Done w)
                                        (\<lambda>w. writeLine w
                                           (prop_name prop @ '': '' @
                                            generateType env (TypeValue (prop_type prop)) @ '';'')))
                                   (increaseLevel w))
                                (\<lambda>w. writeLine (decreaseLevel w) ''}''))
                       | None \<Rightarrow>
                           writeLine w
                             (''type '' @ name node @ '' = '' @
                              generateType env (rawType (typedefType attributes)) @ '';''))))"

text \<open>
  One data member of a class or interface body: the body of the loops over
  \<^verbatim>\<open>staticProperties\<close> (prefix \<^verbatim>\<open>static\<close>) and \<^verbatim>\<open>properties\<close> (no prefix).
\<close>

definition writePropertyNode :: "Environment \<Rightarrow> string \<Rightarrow> Node \<Rightarrow> Writer \<Rightarrow> outcome" where
  "writePropertyNode env prefix propNode w =
     (case defn propNode of
        None \<Rightarrow> Thrown TypeError w
      | Some d \<Rightarrow>
          (case definitionAttributes d of
             None \<Rightarrow> Thrown TypeError w
           | Some attributes \<Rightarrow>
               (let isConst = (type attributes = Some Const);
                    raw = (if isConst then constType attributes else propType attributes)
                in writeLine w
                     (prefix @ (if isConst then ''readonly '' else []) @ name propNode @ '': '' @
                      generateType env (rawType raw) @ '';''))))"

text \<open>
  The loops of \<^verbatim>\<open>writeClassNode\<close> and \<^verbatim>\<open>writeInterfaceNode\<close> that sort the children
  into lists, each list in the order of the children. The loop over the non-prototype
  children of a class switches on the resolved kind \<^verbatim>\<open>type\<close>. The loop over the
  prototype children computes \<^verbatim>\<open>type\<close> as well, but switches on
  \<^verbatim>\<open>child.definition.type\<close>; in its default case it only prints. The loop over the
  non-prototype children of an interface keeps them all.
\<close>

fun gatherStaticMembers :: "Node list \<Rightarrow> error + (Node list \<times> Node list \<times> Node list)" where
  "gatherStaticMembers [] = Inr ([], [], [])"
| "gatherStaticMembers (child # rest) =
     (if name child = ''prototype'' then gatherStaticMembers rest
      else
        (case defn child of
           None \<Rightarrow> Inl TypeError
         | Some d \<Rightarrow>
             (case resolvedType d of
                Inl e \<Rightarrow> Inl e
              | Inr t \<Rightarrow>
                  (case gatherStaticMembers rest of
                     Inl e \<Rightarrow> Inl e
                   | Inr (staticProperties, staticMethods, others) \<Rightarrow>
                       if t = ''const'' then Inr (child # staticProperties, staticMethods, others)
                       else if t = ''property'' then Inr (child # staticProperties, staticMethods, others)
                       else if t = ''function'' then Inr (staticProperties, child # staticMethods, others)
                       else Inr (staticProperties, staticMethods, child # others)))))"

fun gatherPrototypeMembers :: "Node list \<Rightarrow> error + (Node list \<times> Node list)" where
  "gatherPrototypeMembers [] = Inr ([], [])"
| "gatherPrototypeMembers (child # rest) =
     (case defn child of
        None \<Rightarrow> Inl TypeError
      | Some d \<Rightarrow>
          (case resolvedType d of
             Inl e \<Rightarrow> Inl e
           | Inr t \<Rightarrow>
               (case gatherPrototypeMembers rest of
                  Inl e \<Rightarrow> Inl e
                | Inr (properties, methods) \<Rightarrow>
                    (let dt = definitionTypeValue (definitionType d)
                     in if dt = ''const'' then Inr (child # properties, methods)
                        else if dt = ''property'' then Inr (child # properties, methods)
                        else if dt = ''function'' then Inr (properties, child # methods)
                        else Inr (properties, methods)))))"

fun gatherOthers :: "Node list \<Rightarrow> Node list" where
  "gatherOthers [] = []"
| "gatherOthers (child # rest) =
     (if name child = ''prototype'' then gatherOthers rest else child # gatherOthers rest)"

text \<open>
  The part of \<^verbatim>\<open>writeClassNode\<close> from \<^verbatim>\<open>const attributes = node.definition.attributes\<close>
  to the closing brace of the class, and the part of \<^verbatim>\<open>writeInterfaceNode\<close> from
  \<^verbatim>\<open>writeComments\<close> to the closing brace of the interface.
\<close>

definition writeClassMembers ::
  "Environment \<Rightarrow> Writer \<Rightarrow> Node \<Rightarrow> Node list \<Rightarrow> Node list \<Rightarrow> Node list \<Rightarrow> Node list \<Rightarrow> outcome" where
  "writeClassMembers env w node staticProperties staticMethods properties methods =
     (case defn node of
        None \<Rightarrow> Thrown TypeError w
      | Some d \<Rightarrow>
          (case definitionAttributes d of
             None \<Rightarrow> Thrown TypeError w
           | Some attributes \<Rightarrow>
               (let classDeclaration = name node @
                      (case extends attributes of
                         None \<Rightarrow> []
                       | Some t \<Rightarrow> '' extends '' @ toString env t) @
                      (case implements attributes of
                         None \<Rightarrow> []
                       | Some t \<Rightarrow> '' implements '' @ toString env t)
                in andThen (writeLine w (''class '' @ classDeclaration @ '' {''))
                  (\<lambda>w. andThen (forEach staticProperties (writePropertyNode env ''static '') (increaseLevel w))
                  (\<lambda>w. andThen (forEach staticMethods
                                  (\<lambda>methodNode w. writeFunctionNode env w methodNode (Some ''static'') False) w)
                  (\<lambda>w. andThen (forEach properties (writePropertyNode env []) w)
                  (\<lambda>w. andThen (writeFunctionNode env w node None True)
                  (\<lambda>w. andThen (forEach methods
                                  (\<lambda>methodNode w. writeFunctionNode env w methodNode None False) w)
                  (\<lambda>w. writeLine (decreaseLevel w) ''}'')))))))))"

definition writeInterfaceMembers ::
  "Environment \<Rightarrow> Writer \<Rightarrow> Node \<Rightarrow> Attributes \<Rightarrow> Node list \<Rightarrow> Node list \<Rightarrow> outcome" where
  "writeInterfaceMembers env w node attributes properties methods =
     andThen (writeComments w (comments attributes))
       (\<lambda>w. andThen
          (case extends attributes of
             Some baseInterface \<Rightarrow>
               writeLine w (''interface '' @ name node @ '' extends '' @
                            toString env baseInterface @ '' {'')
           | None \<Rightarrow> writeLine w (''interface '' @ name node @ '' {''))
       (\<lambda>w. andThen (forEach properties (writePropertyNode env []) (increaseLevel w))
       (\<lambda>w. andThen (forEach methods
                       (\<lambda>methodNode w. writeFunctionNode env w methodNode None False) w)
       (\<lambda>w. writeLine (decreaseLevel w) ''}''))))"

text \<open>
  \<^verbatim>\<open>writeNode\<close>, \<^verbatim>\<open>writeNodes\<close>, \<^verbatim>\<open>writeClassNode\<close> and \<^verbatim>\<open>writeInterfaceNode\<close> call each
  other; they terminate because every call goes to children of the node.
\<close>

lemma gatherStaticMembers_size:
  "gatherStaticMembers cs = Inr (sp, sm, others) \<Longrightarrow> size_list size others \<le> size_list size cs"
  by (induction cs arbitrary: sp sm others) (auto split: if_splits option.splits sum.splits)

lemma gatherOthers_size: "size_list size (gatherOthers cs) \<le> size_list size cs"
  by (induction cs) auto

lemma size_values_le: "size_list size (map snd cs) \<le> size_list (size_prod (\<lambda>x. 0) size) cs"
  by (induction cs) auto

lemma size_values_less: "size_list size (map snd (children node)) < size node"
  using size_values_le [of "children node"] by (cases node) simp

lemma gatherStaticMembers_less:
  "gatherStaticMembers (map snd (children node)) = Inr (sp, sm, others) \<Longrightarrow>
   size_list size others < size node"
  using gatherStaticMembers_size [of "map snd (children node)" sp sm others]
    size_values_less [of node]
  by simp

lemma gatherOthers_less:
  "size_list size (gatherOthers (map snd (children node))) < size node"
  using gatherOthers_size [of "map snd (children node)"] size_values_less [of node]
  by simp

function writeNode :: "Environment \<Rightarrow> Writer \<Rightarrow> (string \<times> Node) list \<Rightarrow> Node \<Rightarrow> outcome"
  and writeNodes :: "Environment \<Rightarrow> Writer \<Rightarrow> (string \<times> Node) list \<Rightarrow> Node list \<Rightarrow> outcome"
  and writeClassNode :: "Environment \<Rightarrow> Writer \<Rightarrow> (string \<times> Node) list \<Rightarrow> Node \<Rightarrow> outcome"
  and writeInterfaceNode :: "Environment \<Rightarrow> Writer \<Rightarrow> (string \<times> Node) list \<Rightarrow> Node \<Rightarrow> outcome"
where
  "writeNode env w root node =
     (case defn node of
        None \<Rightarrow>
          andThen
            (if level w = 0 then writeLine w (''declare namespace '' @ name node @ '' {'')
             else writeLine w (''namespace '' @ name node @ '' {''))
            (\<lambda>w. andThen (writeNodes env (increaseLevel w) root (map snd (children node)))
              (\<lambda>w. writeLine (decreaseLevel w) ''}''))
      | Some d \<Rightarrow>
          (case resolvedType d of
             Inl e \<Rightarrow> Thrown e w
           | Inr t \<Rightarrow>
               if t = ''class'' then writeClassNode env w root node
               else if t = ''interface'' then writeInterfaceNode env w root node
               else if t = ''typedef'' then writeTypedefNode env w node
               else if t = ''enum'' then writeEnumNode w node
               else if t = ''const'' then
                 (case definitionAttributes d of
                    None \<Rightarrow> Thrown TypeError w
                  | Some attributes \<Rightarrow>
                      andThen (writeComments w (comments attributes))
                        (\<lambda>w. writeLine w
                           (''const '' @ name node @ '': '' @
                            generateType env (rawType (constType attributes)) @ '';'')))
               else if t = ''function'' then writeFunctionNode env w node (Some ''function'') False
               else Done w))"
| "writeNodes env w root [] = Done w"
| "writeNodes env w root (node # nodes) =
     andThen (writeNode env w root node) (\<lambda>w. writeNodes env w root nodes)"
| "writeClassNode env w root node =
     (let prototypeChildren =
            (case map_of (children node) ''prototype'' of
               None \<Rightarrow> []
             | Some prototype \<Rightarrow> map snd (children prototype))
      in case gatherStaticMembers (map snd (children node)) of
           Inl e \<Rightarrow> Thrown e w
         | Inr (staticProperties, staticMethods, others) \<Rightarrow>
             (case gatherPrototypeMembers prototypeChildren of
                Inl e \<Rightarrow> Thrown e w
              | Inr (properties, methods) \<Rightarrow>
                  andThen (writeClassMembers env w node staticProperties staticMethods
                             properties methods)
                    (\<lambda>w. if length others > 0 then
                            andThen (writeLine w (''namespace '' @ name node @ '' {''))
                              (\<lambda>w. andThen (writeNodes env (increaseLevel w) root others)
                                (\<lambda>w. writeLine (decreaseLevel w) ''}''))
                          else Done w)))"
| "writeInterfaceNode env w root node =
     (case defn node of
        None \<Rightarrow> Thrown TypeError w
      | Some d \<Rightarrow>
          (case definitionAttributes d of
             None \<Rightarrow> Thrown TypeError w
           | Some attributes \<Rightarrow>
               (let others = gatherOthers (map snd (children node))
                in case map_of (children node) ''prototype'' of
                     None \<Rightarrow> Thrown TypeError w
                   | Some prototype \<Rightarrow>
                       (case gatherPrototypeMembers (map snd (children prototype)) of
                          Inl e \<Rightarrow> Thrown e w
                        | Inr (properties, methods) \<Rightarrow>
                            andThen (writeInterfaceMembers env w node attributes properties methods)
                              (\<lambda>w. if length others > 0 then
                                      andThen (writeLine w (''namespace '' @ name node @ '' {''))
                                        (\<lambda>w. andThen (writeNodes env (increaseLevel w) root others)
                                          (\<lambda>w. writeLine (decreaseLevel w) ''}''))
                                    else Done w)))))"
  by pat_completeness auto
termination
proof (relation "measure (\<lambda>x. case x of
           Inl (Inl (env, w, root, node)) \<Rightarrow> 2 * size node + 1
         | Inl (Inr (env, w, root, nodes)) \<Rightarrow> 2 * size_list size nodes
         | Inr (Inl (env, w, root, node)) \<Rightarrow> 2 * size node
         | Inr (Inr (env, w, root, node)) \<Rightarrow> 2 * size node)", goal_cases)
  case (2 env w root node wa)
  then show ?case using size_values_less [of node] by simp
next
  case 7
  then show ?case by (auto dest: gatherStaticMembers_less)
next
  case 8
  then show ?case by (simp add: gatherOthers_less)
qed simp_all

text \<open>
  The two entry points: \<^verbatim>\<open>generateTypeDefinitions\<close> returns the buffer of a new
  \<^verbatim>\<open>StringWriter\<close>, or ends with the exception; \<^verbatim>\<open>writeTypeDefinitions\<close> writes to the
  given stream.
\<close>

definition generateTypeDefinitions ::
  "Environment \<Rightarrow> (string \<times> Node) list \<Rightarrow> error + string" where
  "generateTypeDefinitions env definitionRoot =
     (case writeNodes env (StringWriter 0 []) definitionRoot (map snd definitionRoot) of
        Done w \<Rightarrow> Inr (buffer w)
      | Thrown e w \<Rightarrow> Inl e)"

definition writeTypeDefinitions ::
  "Environment \<Rightarrow> string list \<Rightarrow> (string \<times> Node) list \<Rightarrow> outcome" where
  "writeTypeDefinitions env sink definitionRoot =
     writeNodes env (StreamWriter 0 sink) definitionRoot (map snd definitionRoot)"

section \<open>Notions of the specification\<close>

text \<open>
  The callback of the map step of \<^verbatim>\<open>parseBody\<close>, named: the statement parsed, with the
  attributes of its leading comments attached.
\<close>

definition attachAttributes :: "DoctrineParse \<Rightarrow> Statement \<Rightarrow> error + Definition" where
  "attachAttributes dp statement =
     (case parseStatement dp statement of
        Inl e \<Rightarrow> Inl e
      | Inr d \<Rightarrow>
          (case parseLeadingComments dp (leadingComments statement) of
             Inl e \<Rightarrow> Inl e
           | Inr a \<Rightarrow> Inr (withAttributes d a)))"

text \<open>
  In the words of the specification: a definition whose attributes classify it as Const
  with no const type, and one annotated Const with an explicit type.
\<close>

definition constWithoutType :: "Definition \<Rightarrow> bool" where
  "constWithoutType d =
     (case definitionAttributes d of
        None \<Rightarrow> False
      | Some a \<Rightarrow> type a = Some Const \<and> constType a = None)"

definition constWithType :: "Definition \<Rightarrow> bool" where
  "constWithType d =
     (case definitionAttributes d of
        None \<Rightarrow> False
      | Some a \<Rightarrow> type a = Some Const \<and> constType a \<noteq> None)"

section \<open>Sample inputs\<close>

text \<open>
  The tags of \<^verbatim>\<open>@param {string} x\<close>, \<^verbatim>\<open>@param {number} y\<close>, \<^verbatim>\<open>@return {boolean}\<close>: none
  has a description.
\<close>

definition paramReturnTags :: "Tag list" where
  "paramReturnTags =
     [\<lparr>tag_title = ''param'', tag_name = Some ''x'',
       tag_type = Some (NameExpression ''string''), tag_description = None\<rparr>,
      \<lparr>tag_title = ''param'', tag_name = Some ''y'',
       tag_type = Some (NameExpression ''number''), tag_description = None\<rparr>,
      \<lparr>tag_title = ''return'', tag_name = None,
       tag_type = Some (NameExpression ''boolean''), tag_description = None\<rparr>]"

text \<open>The same tags, each with a description.\<close>

definition describedParamReturnTags :: "Tag list" where
  "describedParamReturnTags =
     [\<lparr>tag_title = ''param'', tag_name = Some ''x'',
       tag_type = Some (NameExpression ''string''), tag_description = Some ''the key''\<rparr>,
      \<lparr>tag_title = ''param'', tag_name = Some ''y'',
       tag_type = Some (NameExpression ''number''), tag_description = Some ''the count''\<rparr>,
      \<lparr>tag_title = ''return'', tag_name = None,
       tag_type = Some (NameExpression ''boolean''), tag_description = Some ''whether it fits''\<rparr>]"

text \<open>A comment parser that knows a few comment texts; any other text is a description.\<close>

definition sampleParse :: DoctrineParse where
  "sampleParse text =
     (if text = ''@const'' then
        \<lparr>ast_description = [],
         ast_tags = [\<lparr>tag_title = ''const'', tag_name = None, tag_type = None,
                      tag_description = None\<rparr>]\<rparr>
      else if text = ''@const {number}'' then
        \<lparr>ast_description = [],
         ast_tags = [\<lparr>tag_title = ''const'', tag_name = None,
                      tag_type = Some (NameExpression ''number''), tag_description = None\<rparr>]\<rparr>
      else if text = ''@param {string} x @param {number} y @return {boolean}'' then
        \<lparr>ast_description = [], ast_tags = paramReturnTags\<rparr>
      else if text = ''Fits. @param {string} x the key @param {number} y the count @return {boolean} whether it fits'' then
        \<lparr>ast_description = ''Fits.'', ast_tags = describedParamReturnTags\<rparr>
      else \<lparr>ast_description = text, ast_tags = []\<rparr>)"

definition blockComment :: "string \<Rightarrow> Comment" where
  "blockComment text = \<lparr>comment_type = Block, comment_value = text\<rparr>"

definition constAttributes :: "Type option \<Rightarrow> Attributes" where
  "constAttributes t = (initialAttributes [])\<lparr>type := Some Const, constType := t\<rparr>"

text \<open>
  \<^verbatim>\<open>/** @const */ Foo.BAR = {};\<close>, a variable declaration,
  \<^verbatim>\<open>/** @const {number} */ Foo.BAZ = {};\<close> and \<^verbatim>\<open>/** @const */ Foo.Cls = class {};\<close>.
\<close>

definition sampleStatements :: "Statement list" where
  "sampleStatements =
     [ExpressionStatement
        (AssignmentExpression (MemberExpression (Identifier ''Foo'') (Identifier ''BAR''))
           (ObjectExpression []))
        (Some [blockComment ''@const'']),
      OtherStatement ''VariableDeclaration'' None,
      ExpressionStatement
        (AssignmentExpression (MemberExpression (Identifier ''Foo'') (Identifier ''BAZ''))
           (ObjectExpression []))
        (Some [blockComment ''@const {number}'']),
      ExpressionStatement
        (AssignmentExpression (MemberExpression (Identifier ''Foo'') (Identifier ''Cls''))
           (ClassExpression None []))
        (Some [blockComment ''@const''])]"

text \<open>A store that holds one empty map, the root (reference 0), and no node.\<close>

definition emptyStore :: Store where
  "emptyStore =
     \<lparr>mapObjects = (\<lambda>m. []),
      nodeObjects = (\<lambda>n. \<lparr>node_name = [], node_definition = None, node_children = 0\<rparr>),
      mapCount = 1, nodeCount = 0\<rparr>"

text \<open>The store after \<^verbatim>\<open>getOrCreateNode(root, "Foo")\<close> on the empty root.\<close>

definition fooStore :: Store where
  "fooStore = snd (getOrCreateNode emptyStore 0 ''Foo'')"

text \<open>
  A type renderer and a string conversion for the examples: a name expression is
  rendered as its name.
\<close>

fun sampleGenerateType :: "RawType \<Rightarrow> string" where
  "sampleGenerateType (TypeValue (NameExpression n)) = n"
| "sampleGenerateType (TypeValue _) = ''unknown''"
| "sampleGenerateType UndefinedValue = ''any''"
| "sampleGenerateType (StringValue s) = s"

fun sampleToString :: "Type \<Rightarrow> string" where
  "sampleToString (NameExpression n) = n"
| "sampleToString _ = ''[object Object]''"

definition sampleEnv :: Environment where
  "sampleEnv = \<lparr>generateType = sampleGenerateType, toString = sampleToString\<rparr>"

text \<open>Attributes whose only content is the type classification.\<close>

definition typedAttributes :: "AnnotationType \<Rightarrow> Attributes" where
  "typedAttributes t = (initialAttributes [])\<lparr>type := Some t\<rparr>"

text \<open>
  Nodes: a constant of type number; the enum \<^verbatim>\<open>Foo.Kind\<close> with the members A and B; the
  class \<^verbatim>\<open>Foo\<close> with a constructor and the nested enum, which goes to the trailing
  namespace block.
\<close>

definition constNode :: "string \<Rightarrow> Node" where
  "constNode n =
     Node n (Some (PropertyDefinition [n] (Some (constAttributes (Some (NameExpression ''number'')))))) []"

definition kindNode :: Node where
  "kindNode =
     Node ''Kind''
       (Some (ObjectDefinition [''Foo'', ''Kind''] [''A'', ''B''] (Some (typedAttributes Enum)))) []"

definition classWithNamespace :: Node where
  "classWithNamespace =
     Node ''Foo''
       (Some (FunctionDefinition [''Foo''] [] None None None None (Some (typedAttributes Class))))
       [(''Kind'', kindNode)]"

text \<open>
  \<^verbatim>\<open>/** @type {Object} */ Foo.prototype.options = {};\<close>: an object definition whose
  attributes classify it as a property. It is once a prototype child and once a direct
  child of the class \<^verbatim>\<open>Foo\<close>.
\<close>

definition optionsNode :: Node where
  "optionsNode =
     Node ''options''
       (Some (ObjectDefinition [''Foo'', ''prototype'', ''options''] []
          (Some ((initialAttributes [])
             \<lparr>type := Some Property, propType := Some (NameExpression ''Object'')\<rparr>)))) []"

definition constructorDefinition :: Definition where
  "constructorDefinition =
     FunctionDefinition [''Foo''] [] None None None None (Some (typedAttributes Class))"

definition classWithOptions :: Node where
  "classWithOptions =
     Node ''Foo'' (Some constructorDefinition)
       [(''prototype'', Node ''prototype'' None [(''options'', optionsNode)])]"

definition classWithStaticOptions :: Node where
  "classWithStaticOptions =
     Node ''Foo'' (Some constructorDefinition) [(''options'', optionsNode)]"

text \<open>
  \<^verbatim>\<open>/** @enum */ ns.Color;\<close>: a property definition annotated as an enum; an
  interface and a class that have no \<^verbatim>\<open>prototype\<close> child.
\<close>

definition badEnumNode :: Node where
  "badEnumNode =
     Node ''Color'' (Some (PropertyDefinition [''ns'', ''Color''] (Some (typedAttributes Enum)))) []"

definition interfaceWithoutPrototype :: Node where
  "interfaceWithoutPrototype =
     Node ''Thing''
       (Some (FunctionDefinition [''Thing''] [] None None None None
          (Some (typedAttributes Interface)))) []"

definition classOnlyConstructor :: Node where
  "classOnlyConstructor = Node ''Foo'' (Some constructorDefinition) []"

section \<open>Properties of the writers\<close>

text \<open>
  C8. Every line written by either writer is indent + content + newline, where the
  indent is the two-space string repeated level-many times, the level being the one the
  writer has when the line is written; the buffer grows by exactly that line, the stream
  receives exactly that line as one chunk, and the level is unchanged. (With a negative
  level no line is produced: \<^verbatim>\<open>repeat\<close> raises.)
\<close>

theorem writeLine_indent_content_newline:
  "writeLine (StringWriter l b) str =
     (if l < 0 then Thrown RangeError (StringWriter l b)
      else Done (StringWriter l (b @ concat (replicate (nat l) ''  '') @ str @ [CHR 0x0A])))
   \<and> writeLine (StreamWriter l s) str =
     (if l < 0 then Thrown RangeError (StreamWriter l s)
      else Done (StreamWriter l (s @ [concat (replicate (nat l) ''  '') @ str @ [CHR 0x0A]])))
   \<and> (getIndentation (StringWriter l b) = getIndentation (StreamWriter l s))
   \<and> (0 \<le> l \<longrightarrow> (\<exists>ind. getIndentation (StringWriter l b) = Inr ind
          \<and> length ind = 2 * nat l \<and> set ind \<subseteq> {CHR '' ''}))"
  by (auto simp: writeLine_def getIndentation_def newline_def length_concat sum_list_replicate)

theorem writeLine_indent_content_newline_witness:
  "writeLine (StringWriter 2 ''a'') ''x;'' = Done (StringWriter 2 (''a'' @ ''    '' @ ''x;'' @ [CHR 0x0A]))
   \<and> writeLine (StreamWriter 1 []) ''}'' = Done (StreamWriter 1 [''  }'' @ [CHR 0x0A]])
   \<and> getIndentation (StringWriter 2 ''a'') = Inr ''    ''"
  using writeLine_indent_content_newline [of 2 "''a''" "''x;''" "[]" ]
        writeLine_indent_content_newline [of 1 "''a''" "''}''" "[]" ]
  by (simp add: getIndentation_def numeral_2_eq_2)

section \<open>Properties of the comment tag interpreter\<close>

text \<open>
  C7. Of several leading comments only the last one, the one closest to the statement,
  is parsed: the result is that of \<^verbatim>\<open>parseBlockComment\<close> on it, whatever the earlier
  comments are. A statement without leading comments gets the attributes with the empty
  description, no comments and no other field.
\<close>

theorem parseLeadingComments_closest_comment:
  "parseLeadingComments dp (Some (earlier @ [c])) = parseBlockComment dp c
   \<and> parseLeadingComments dp None = Inr
        \<lparr>description = [], comments = [], type = None, typedefType = None,
         constType = None, propType = None, enumType = None, returnType = None,
         props = None, paramTypes = None, implements = None, extends = None,
         template = None\<rparr>"
  by (simp add: parseLeadingComments_def initialAttributes_def)

theorem parseLeadingComments_closest_comment_witness:
  "parseLeadingComments sampleParse
     (Some ([blockComment ''@const'', blockComment ''hello''] @ [blockComment ''@const {number}'']))
   = Inr (constAttributes (Some (NameExpression ''number'')))"
proof -
  have "parseBlockComment sampleParse (blockComment ''@const {number}'')
        = Inr (constAttributes (Some (NameExpression ''number'')))"
    by (simp add: parseBlockComment_def blockComment_def sampleParse_def constAttributes_def
        initialAttributes_def applyTag_def normalizeDescription_def trim_def)
  then show ?thesis
    using parseLeadingComments_closest_comment
      [of sampleParse "[blockComment ''@const'', blockComment ''hello'']"
          "blockComment ''@const {number}''"]
    by simp
qed

text \<open>
  C3, as stated, fails: for the tags \<^verbatim>\<open>@param {string} x\<close>, \<^verbatim>\<open>@param {number} y\<close>,
  \<^verbatim>\<open>@return {boolean}\<close> the attributes have the parameter types, the type Function and
  the return type, but the comments sequence is empty: a \<^verbatim>\<open>@param\<close> or \<^verbatim>\<open>@returnType\<close>
  line is added only under \<^verbatim>\<open>if (tag.description)\<close>, and these tags have none.
\<close>

theorem parseBlockComment_param_return_no_comment_lines:
  "parseBlockComment sampleParse
     (blockComment ''@param {string} x @param {number} y @return {boolean}'')
   = Inr \<lparr>description = [], comments = [], type = Some Function, typedefType = None,
          constType = None, propType = None, enumType = None,
          returnType = Some (NameExpression ''boolean''), props = None,
          paramTypes = Some [(''x'', NameExpression ''string''), (''y'', NameExpression ''number'')],
          implements = None, extends = None, template = None\<rparr>"
  by (simp add: parseBlockComment_def blockComment_def sampleParse_def paramReturnTags_def
      initialAttributes_def applyTag_def normalizeDescription_def trim_def)

text \<open>
  C3, amended. For a block comment whose tags are \<^verbatim>\<open>@param\<close> x, \<^verbatim>\<open>@param\<close> y and
  \<^verbatim>\<open>@return\<close>, each with a type, the attributes map x and y to their types in
  \<open>paramTypes\<close>, have the type Function and the return type, and the comments are, in
  this order: the normalized description of the comment if it is not empty, then for
  each of the three tags that has a non-empty description the line \<^verbatim>\<open>@param x d\<close>,
  \<^verbatim>\<open>@param y d\<close>, \<^verbatim>\<open>@returnType d\<close> with its normalized description. A tag without
  description adds no line.
\<close>

theorem parseBlockComment_param_return:
  assumes "comment_type c = Block"
    and "dp (comment_value c) = \<lparr>ast_description = d, ast_tags =
     [\<lparr>tag_title = ''param'', tag_name = Some ''x'', tag_type = Some tx, tag_description = dx\<rparr>,
      \<lparr>tag_title = ''param'', tag_name = Some ''y'', tag_type = Some ty, tag_description = dy\<rparr>,
      \<lparr>tag_title = ''return'', tag_name = None, tag_type = Some tr, tag_description = dr\<rparr>]\<rparr>"
  shows "parseBlockComment dp c = Inr
     \<lparr>description = normalizeDescription d,
      comments =
        (if normalizeDescription d \<noteq> [] then [normalizeDescription d] else []) @
        (case dx of None \<Rightarrow> [] | Some t \<Rightarrow>
           if t = [] then [] else [''@param x '' @ normalizeDescription t]) @
        (case dy of None \<Rightarrow> [] | Some t \<Rightarrow>
           if t = [] then [] else [''@param y '' @ normalizeDescription t]) @
        (case dr of None \<Rightarrow> [] | Some t \<Rightarrow>
           if t = [] then [] else [''@returnType '' @ normalizeDescription t]),
      type = Some Function, typedefType = None,
      constType = None, propType = None, enumType = None,
      returnType = Some tr, props = None,
      paramTypes = Some [(''x'', tx), (''y'', ty)],
      implements = None, extends = None, template = None\<rparr>"
  using assms
  by (cases dx; cases dy; cases dr)
     (simp_all add: parseBlockComment_def initialAttributes_def applyTag_def)

theorem parseBlockComment_param_return_witness:
  "parseBlockComment sampleParse
     (blockComment ''Fits. @param {string} x the key @param {number} y the count @return {boolean} whether it fits'')
   = Inr \<lparr>description = ''Fits.'',
          comments = [''Fits.'', ''@param x the key'', ''@param y the count'',
                      ''@returnType whether it fits''],
          type = Some Function, typedefType = None,
          constType = None, propType = None, enumType = None,
          returnType = Some (NameExpression ''boolean''), props = None,
          paramTypes = Some [(''x'', NameExpression ''string''), (''y'', NameExpression ''number'')],
          implements = None, extends = None, template = None\<rparr>"
proof -
  have n: "normalizeDescription ''Fits.'' = ''Fits.''"
      "normalizeDescription ''the key'' = ''the key''"
      "normalizeDescription ''the count'' = ''the count''"
      "normalizeDescription ''whether it fits'' = ''whether it fits''"
    by (simp_all add: normalizeDescription_def trim_def isWhiteSpace_def)
  have b: "comment_type (blockComment ''Fits. @param {string} x the key @param {number} y the count @return {boolean} whether it fits'') = Block"
    by (simp add: blockComment_def)
  have p: "sampleParse (comment_value (blockComment ''Fits. @param {string} x the key @param {number} y the count @return {boolean} whether it fits''))
      = \<lparr>ast_description = ''Fits.'', ast_tags =
     [\<lparr>tag_title = ''param'', tag_name = Some ''x'', tag_type = Some (NameExpression ''string''),
       tag_description = Some ''the key''\<rparr>,
      \<lparr>tag_title = ''param'', tag_name = Some ''y'', tag_type = Some (NameExpression ''number''),
       tag_description = Some ''the count''\<rparr>,
      \<lparr>tag_title = ''return'', tag_name = None, tag_type = Some (NameExpression ''boolean''),
       tag_description = Some ''whether it fits''\<rparr>]\<rparr>"
    by (simp add: blockComment_def sampleParse_def describedParamReturnTags_def)
  show ?thesis
    using parseBlockComment_param_return
      [where dp = sampleParse and c = "blockComment ''Fits. @param {string} x the key @param {number} y the count @return {boolean} whether it fits''",
       OF b p]
    by (simp add: n)
qed

section \<open>Properties of the definition extractor\<close>

lemma parseBody_unfold:
  "parseBody dp statements =
     (case mapE (attachAttributes dp) (filter isExpressionOrFunction statements) of
        Inl e \<Rightarrow> Inl e
      | Inr ds \<Rightarrow> filterE keepDefinition ds)"
  by (simp add: attachAttributes_def[abs_def])

lemma withAttributes_attributes [simp]:
  "definitionAttributes (withAttributes d a) = Some a"
  by (cases d) simp_all

lemma withAttributes_type [simp]:
  "definitionType (withAttributes d a) = definitionType d"
  by (cases d) simp_all

lemma attachAttributes_Some:
  "attachAttributes dp s = Inr d \<Longrightarrow> \<exists>a. definitionAttributes d = Some a"
  by (auto simp: attachAttributes_def split: sum.splits)

lemma mapE_Inr_all:
  "mapE f xs = Inr ys \<Longrightarrow> y \<in> set ys \<Longrightarrow> \<exists>x \<in> set xs. f x = Inr y"
  by (induction xs arbitrary: ys) (auto split: sum.splits)

text \<open>
  On definitions that all have attributes the last filter never fails, and it keeps
  what is not a typeless Const, and every class.
\<close>

lemma filterE_keepDefinition:
  "(\<And>d. d \<in> set ds \<Longrightarrow> \<exists>a. definitionAttributes d = Some a) \<Longrightarrow>
   filterE keepDefinition ds =
     Inr (filter (\<lambda>d. \<not> (constWithoutType d \<and> definitionType d \<noteq> DefClass)) ds)"
proof (induction ds)
  case Nil
  then show ?case by simp
next
  case (Cons d ds)
  then obtain a where a: "definitionAttributes d = Some a" by auto
  have ih: "filterE keepDefinition ds =
     Inr (filter (\<lambda>d. \<not> (constWithoutType d \<and> definitionType d \<noteq> DefClass)) ds)"
    using Cons by simp
  have k: "keepDefinition d = Inr (\<not> (constWithoutType d \<and> definitionType d \<noteq> DefClass))"
    using a by (auto simp: keepDefinition_def constWithoutType_def)
  show ?case by (simp add: ih k)
qed

text \<open>
  C2. Let \<open>ds\<close> be the definitions parsed from the statements (the expression statements
  and function declarations, each with the attributes of its leading comments). Then
  \<^verbatim>\<open>parseBody\<close> returns \<open>ds\<close> without exactly the definitions that are Const without a
  const type and not of kind Class, in the same order: a definition of \<open>ds\<close> is missing
  from the result if and only if it is a typeless Const and not a class, and a
  definition annotated Const with a type is in the result.
\<close>

theorem parseBody_post_filter:
  assumes "mapE (attachAttributes dp) (filter isExpressionOrFunction statements) = Inr ds"
  shows "\<exists>kept. parseBody dp statements = Inr kept
           \<and> kept = filter (\<lambda>d. \<not> (constWithoutType d \<and> definitionType d \<noteq> DefClass)) ds
           \<and> (\<forall>d \<in> set ds. d \<notin> set kept \<longleftrightarrow> constWithoutType d \<and> definitionType d \<noteq> DefClass)
           \<and> (\<forall>d \<in> set ds. definitionType d = DefClass \<longrightarrow> d \<in> set kept)
           \<and> (\<forall>d \<in> set ds. constWithType d \<longrightarrow> d \<in> set kept)"
proof -
  have "\<And>d. d \<in> set ds \<Longrightarrow> \<exists>a. definitionAttributes d = Some a"
    using mapE_Inr_all[OF assms] attachAttributes_Some by blast
  then have "parseBody dp statements =
      Inr (filter (\<lambda>d. \<not> (constWithoutType d \<and> definitionType d \<noteq> DefClass)) ds)"
    using assms by (simp add: parseBody_unfold filterE_keepDefinition del: parseBody.simps)
  then show ?thesis
    by (auto simp: constWithType_def constWithoutType_def split: option.splits)
qed

theorem parseBody_post_filter_witness:
  "parseBody sampleParse sampleStatements =
     Inr [ObjectDefinition [''Foo'', ''BAZ''] []
            (Some (constAttributes (Some (NameExpression ''number'')))),
          ClassDefinition [''Foo'', ''Cls''] None [] (Some (constAttributes None))]"
proof -
  have m: "mapE (attachAttributes sampleParse) (filter isExpressionOrFunction sampleStatements) =
     Inr [ObjectDefinition [''Foo'', ''BAR''] [] (Some (constAttributes None)),
          ObjectDefinition [''Foo'', ''BAZ''] []
            (Some (constAttributes (Some (NameExpression ''number'')))),
          ClassDefinition [''Foo'', ''Cls''] None [] (Some (constAttributes None))]"
    by (simp add: sampleStatements_def isExpressionOrFunction_def attachAttributes_def
        parseLeadingComments_def parseBlockComment_def blockComment_def sampleParse_def
        constAttributes_def initialAttributes_def applyTag_def normalizeDescription_def trim_def)
  show ?thesis
    using parseBody_post_filter [OF m]
    by (simp add: constWithoutType_def constAttributes_def initialAttributes_def)
qed

section \<open>Properties of the tree utilities\<close>

lemma getOrCreateLoop_existing:
  "getLoop s nodes node path = Some n \<Longrightarrow> getOrCreateLoop s nodes node path = (Some n, s)"
  by (induction path arbitrary: nodes node) (auto simp: getOrCreateNode_def split: option.splits)

text \<open>
  C6. On a store whose root map is allocated and empty, \<^verbatim>\<open>getOrCreateNodeAtPath\<close> with
  the path [A, B, C] creates three nodes and returns the third: the first is the entry A
  of the root, the second the entry B of the children of the first, the third the entry
  C of the children of the second; they are named A, B and C, and none of them has a
  definition. \<^verbatim>\<open>getNodeAtPath\<close> finds them at [A], [A, B] and [A, B, C].
\<close>

theorem getOrCreateNodeAtPath_empty_root:
  assumes "root < mapCount s" and "mapObjects s root = []"
  shows "\<exists>s'. getOrCreateNodeAtPath s root [A, B, C] = Inr (Some (nodeCount s + 2), s')
     \<and> mapGet s' root A = Some (nodeCount s)
     \<and> mapGet s' (node_children (nodeObjects s' (nodeCount s))) B = Some (nodeCount s + 1)
     \<and> mapGet s' (node_children (nodeObjects s' (nodeCount s + 1))) C = Some (nodeCount s + 2)
     \<and> node_definition (nodeObjects s' (nodeCount s)) = None
     \<and> node_definition (nodeObjects s' (nodeCount s + 1)) = None
     \<and> node_definition (nodeObjects s' (nodeCount s + 2)) = None
     \<and> node_name (nodeObjects s' (nodeCount s)) = A
     \<and> node_name (nodeObjects s' (nodeCount s + 1)) = B
     \<and> node_name (nodeObjects s' (nodeCount s + 2)) = C
     \<and> getNodeAtPath s' root [A] = Some (nodeCount s)
     \<and> getNodeAtPath s' root [A, B] = Some (nodeCount s + 1)
     \<and> getNodeAtPath s' root [A, B, C] = Some (nodeCount s + 2)
     \<and> nodeCount s' = nodeCount s + 3"
  using assms
  by (simp add: getOrCreateNodeAtPath_def getNodeAtPath_def getOrCreateNode_def mapGet_def
      mapSet_def newMap_def newNode_def Let_def update_conv)

theorem getOrCreateNodeAtPath_empty_root_witness:
  "\<exists>s'. getOrCreateNodeAtPath emptyStore 0 [''Foo'', ''Bar'', ''baz''] = Inr (Some 2, s')
     \<and> mapGet s' 0 ''Foo'' = Some 0
     \<and> mapGet s' (node_children (nodeObjects s' 0)) ''Bar'' = Some 1
     \<and> mapGet s' (node_children (nodeObjects s' 1)) ''baz'' = Some 2
     \<and> node_definition (nodeObjects s' 0) = None
     \<and> node_definition (nodeObjects s' 1) = None
     \<and> getNodeAtPath s' 0 [''Foo'', ''Bar'', ''baz''] = Some 2"
proof -
  have r: "0 < mapCount emptyStore" and e: "mapObjects emptyStore 0 = []"
    by (simp_all add: emptyStore_def)
  have n: "nodeCount emptyStore = 0"
    by (simp add: emptyStore_def)
  show ?thesis
    using getOrCreateNodeAtPath_empty_root [OF r e, of "''Foo''" "''Bar''" "''baz''"]
    by (auto simp: n)
qed

text \<open>
  C9. A second call of \<^verbatim>\<open>getOrCreateNode\<close> with the same map and name returns the same
  node reference as the first and leaves the store (every map and node object, and what
  is allocated) as the first call left it. When \<^verbatim>\<open>getNodeAtPath\<close> finds a node at a
  path, \<^verbatim>\<open>getOrCreateNodeAtPath\<close> with this path returns that node and leaves the store
  unchanged: nothing is created.
\<close>

theorem getOrCreateNode_idempotent:
  "(getOrCreateNode s nodes key = (n, s') \<longrightarrow> getOrCreateNode s' nodes key = (n, s'))
   \<and> (getNodeAtPath s root path = Some n \<longrightarrow>
        path \<noteq> [] \<and> getOrCreateNodeAtPath s root path = Inr (Some n, s))"
proof (intro conjI impI)
  assume "getOrCreateNode s nodes key = (n, s')"
  then show "getOrCreateNode s' nodes key = (n, s')"
    by (auto simp: getOrCreateNode_def mapGet_def mapSet_def newMap_def newNode_def update_conv
        split: option.splits)
next
  assume a: "getNodeAtPath s root path = Some n"
  then show "path \<noteq> []"
    by (cases path) (simp_all add: getNodeAtPath_def)
  then show "getOrCreateNodeAtPath s root path = Inr (Some n, s)"
    using a getOrCreateLoop_existing [of s root None path n]
    by (simp add: getNodeAtPath_def getOrCreateNodeAtPath_def
        del: getLoop.simps getOrCreateLoop.simps)
qed

theorem getOrCreateNode_idempotent_witness:
  "getOrCreateNode emptyStore 0 ''Foo'' = (0, fooStore)
   \<and> getOrCreateNode fooStore 0 ''Foo'' = (0, fooStore)
   \<and> getNodeAtPath fooStore 0 [''Foo''] = Some 0
   \<and> getOrCreateNodeAtPath fooStore 0 [''Foo''] = Inr (Some 0, fooStore)"
proof -
  have a: "getOrCreateNode emptyStore 0 ''Foo'' = (0, fooStore)"
    by (simp add: fooStore_def getOrCreateNode_def emptyStore_def mapGet_def newMap_def
        newNode_def mapSet_def)
  have g: "getNodeAtPath fooStore 0 [''Foo''] = Some 0"
    by (simp add: fooStore_def getNodeAtPath_def getOrCreateNode_def emptyStore_def mapGet_def
        newMap_def newNode_def mapSet_def)
  show ?thesis
    using a g
      getOrCreateNode_idempotent [of emptyStore 0 "''Foo''" 0 fooStore 0 "[]"]
      getOrCreateNode_idempotent [of fooStore 0 "''Foo''" 0 fooStore 0 "[''Foo'']"]
    by simp
qed

section \<open>Properties of the declaration emitter\<close>

text \<open>
  The recursive equations of the emitter are unfolded only where a proof asks for them.
\<close>

declare writeNode.simps [simp del] writeClassNode.simps [simp del]
  writeInterfaceNode.simps [simp del]

lemmas emitter_defs =
  writeLine_def getIndentation_def increaseLevel_def decreaseLevel_def andThen_def
  writeComments_def resolvedType_def writeFunctionNode_def writeEnumNode_def
  writeTypedefNode_def writePropertyNode_def writeClassMembers_def writeInterfaceMembers_def
  rawType_def newline_def

lemmas sample_defs =
  sampleEnv_def typedAttributes_def constAttributes_def initialAttributes_def

subsection \<open>What a completed operation does to the level\<close>

lemma andThen_Done:
  "andThen r f = Done w' \<longleftrightarrow> (\<exists>w1. r = Done w1 \<and> f w1 = Done w')"
  by (cases r) (simp_all add: andThen_def)

lemma level_increaseLevel [simp]: "level (increaseLevel w) = level w + 1"
  by (cases w) (simp_all add: increaseLevel_def)

lemma level_decreaseLevel [simp]: "level (decreaseLevel w) = level w - 1"
  by (cases w) (simp_all add: decreaseLevel_def)

lemma writeLine_level: "writeLine w s = Done w' \<Longrightarrow> level w' = level w"
  by (cases w) (auto simp: writeLine_def split: sum.splits)

lemma forEach_level:
  "(\<And>x w w'. x \<in> set xs \<Longrightarrow> body x w = Done w' \<Longrightarrow> level w' = level w) \<Longrightarrow>
   forEach xs body w = Done w' \<Longrightarrow> level w' = level w"
proof (induction xs arbitrary: w)
  case Nil
  then show ?case by simp
next
  case (Cons x xs)
  from Cons.prems(2) obtain w1 where 1: "body x w = Done w1" and 2: "forEach xs body w1 = Done w'"
    by (auto simp: andThen_Done)
  have a: "level w1 = level w"
    using Cons.prems(1) [of x w w1] 1 by simp
  have "level w' = level w1"
  proof (rule Cons.IH [OF _ 2])
    fix y v v'
    assume "y \<in> set xs" and "body y v = Done v'"
    then show "level v' = level v" using Cons.prems(1) [of y v v'] by simp
  qed
  then show ?case using a by simp
qed

lemma forEach_writeLine_level:
  "forEach xs (\<lambda>x w. writeLine w (f x)) w = Done w' \<Longrightarrow> level w' = level w"
  using forEach_level [of xs "\<lambda>x w. writeLine w (f x)" w w'] writeLine_level by blast

lemma writeComments_level: "writeComments w cs = Done w' \<Longrightarrow> level w' = level w"
  by (auto simp: writeComments_def andThen_Done split: if_splits
      dest!: writeLine_level forEach_writeLine_level)

lemma writeFunctionNode_level:
  "writeFunctionNode env w node keyword isConstructor = Done w' \<Longrightarrow> level w' = level w"
  by (auto simp: writeFunctionNode_def andThen_Done Let_def split: option.splits
      dest!: writeComments_level writeLine_level)

lemma writePropertyNode_level:
  "writePropertyNode env prefix propNode w = Done w' \<Longrightarrow> level w' = level w"
  by (auto simp: writePropertyNode_def Let_def split: option.splits dest!: writeLine_level)

lemma writeEnumNode_level: "writeEnumNode w node = Done w' \<Longrightarrow> level w' = level w"
  by (auto simp: writeEnumNode_def andThen_Done split: option.splits
      dest!: writeComments_level writeLine_level forEach_writeLine_level)

lemma forEach_props_level:
  "forEach ps
     (\<lambda>prop w. andThen (if truthy (prop_description prop)
                         then writeComments w [the (prop_description prop)] else Done w)
                 (\<lambda>w. writeLine w (f prop))) w = Done w' \<Longrightarrow> level w' = level w"
  by (erule forEach_level [rotated])
     (auto simp: andThen_Done split: if_splits dest!: writeComments_level writeLine_level)

lemma writeTypedefNode_level:
  "writeTypedefNode env w node = Done w' \<Longrightarrow> level w' = level w"
  by (auto simp: writeTypedefNode_def andThen_Done split: option.splits
      dest!: writeComments_level writeLine_level forEach_props_level)

lemma forEach_writePropertyNode_level:
  "forEach ns (writePropertyNode env prefix) w = Done w' \<Longrightarrow> level w' = level w"
  using forEach_level [of ns "writePropertyNode env prefix" w w'] writePropertyNode_level
  by blast

lemma forEach_writeFunctionNode_level:
  "forEach ns (\<lambda>methodNode w. writeFunctionNode env w methodNode keyword False) w = Done w'
   \<Longrightarrow> level w' = level w"
  using forEach_level [of ns "\<lambda>methodNode w. writeFunctionNode env w methodNode keyword False" w w']
    writeFunctionNode_level
  by blast

lemma writeClassMembers_level:
  "writeClassMembers env w node sp sm ps ms = Done w' \<Longrightarrow> level w' = level w"
  by (auto simp: writeClassMembers_def andThen_Done Let_def split: option.splits
      dest!: writeLine_level forEach_writePropertyNode_level forEach_writeFunctionNode_level
        writeFunctionNode_level)

lemma writeInterfaceMembers_level:
  "writeInterfaceMembers env w node attributes ps ms = Done w' \<Longrightarrow> level w' = level w"
  by (auto simp: writeInterfaceMembers_def andThen_Done split: option.splits
      dest!: writeComments_level writeLine_level forEach_writePropertyNode_level
        forEach_writeFunctionNode_level)

lemma level_restored:
  "writeNode env w root node = Done w' \<Longrightarrow> level w' = level w"
  "writeNodes env w root nodes = Done w' \<Longrightarrow> level w' = level w"
  "writeClassNode env w root node = Done w' \<Longrightarrow> level w' = level w"
  "writeInterfaceNode env w root node = Done w' \<Longrightarrow> level w' = level w"
proof (induction env w root node and env w root nodes and env w root node and env w root node
    arbitrary: w' and w' and w' and w'
    rule: writeNode_writeNodes_writeClassNode_writeInterfaceNode.induct)
  case (1 env w root node)
  show ?case
  proof (cases "defn node")
    case None
    then obtain w1 w2 where
      a: "(if level w = 0 then writeLine w (''declare namespace '' @ name node @ '' {'')
           else writeLine w (''namespace '' @ name node @ '' {'')) = Done w1"
      and b: "writeNodes env (increaseLevel w1) root (map snd (children node)) = Done w2"
      and c: "writeLine (decreaseLevel w2) ''}'' = Done w'"
      using "1.prems" by (auto simp: writeNode.simps andThen_Done)
    have "level w1 = level w" using a writeLine_level by (auto split: if_splits)
    moreover have "level w2 = level (increaseLevel w1)"
      using "1.IH"(1) [OF None a b] .
    moreover have "level w' = level (decreaseLevel w2)" using writeLine_level [OF c] .
    ultimately show ?thesis by simp
  next
    case (Some d)
    then obtain t where t: "resolvedType d = Inr t"
      using "1.prems" by (auto simp: writeNode.simps split: sum.splits)
    show ?thesis
      using "1.prems" Some t "1.IH"(2) [OF Some t] "1.IH"(3) [OF Some t]
      by (auto simp: writeNode.simps andThen_Done split: if_splits option.splits
          dest!: writeTypedefNode_level writeEnumNode_level writeComments_level writeLine_level
            writeFunctionNode_level)
  qed
next
  case (2 env w root)
  then show ?case by simp
next
  case (3 env w root node nodes)
  then show ?case by (auto simp: andThen_Done)
next
  case (4 env w root node)
  from "4.prems" obtain sp sm others ps ms w1 where
    g: "gatherStaticMembers (map snd (children node)) = Inr (sp, sm, others)"
    and p: "gatherPrototypeMembers
              (case map_of (children node) ''prototype'' of None \<Rightarrow> []
               | Some prototype \<Rightarrow> map snd (children prototype)) = Inr (ps, ms)"
    and m: "writeClassMembers env w node sp sm ps ms = Done w1"
    and r: "(if length others > 0 then
               andThen (writeLine w1 (''namespace '' @ name node @ '' {''))
                 (\<lambda>w. andThen (writeNodes env (increaseLevel w) root others)
                   (\<lambda>w. writeLine (decreaseLevel w) ''}''))
             else Done w1) = Done w'"
    by (auto simp: writeClassNode.simps Let_def andThen_Done split: sum.splits prod.splits)
  have l1: "level w1 = level w" using writeClassMembers_level [OF m] .
  show ?case
  proof (cases "length others > 0")
    case False
    then show ?thesis using r l1 by simp
  next
    case True
    then obtain w2 w3 where
      a: "writeLine w1 (''namespace '' @ name node @ '' {'') = Done w2"
      and b: "writeNodes env (increaseLevel w2) root others = Done w3"
      and c: "writeLine (decreaseLevel w3) ''}'' = Done w'"
      using r by (auto simp: andThen_Done)
    have "level w3 = level (increaseLevel w2)"
      using "4.IH" [OF refl g refl refl p refl m True a b] .
    then show ?thesis using l1 writeLine_level [OF a] writeLine_level [OF c] by simp
  qed
next
  case (5 env w root node)
  from "5.prems" obtain d attributes prototype ps ms w1 where
    d: "defn node = Some d" and at: "definitionAttributes d = Some attributes"
    and pr: "map_of (children node) ''prototype'' = Some prototype"
    and p: "gatherPrototypeMembers (map snd (children prototype)) = Inr (ps, ms)"
    and m: "writeInterfaceMembers env w node attributes ps ms = Done w1"
    and r: "(if length (gatherOthers (map snd (children node))) > 0 then
               andThen (writeLine w1 (''namespace '' @ name node @ '' {''))
                 (\<lambda>w. andThen (writeNodes env (increaseLevel w) root
                                  (gatherOthers (map snd (children node))))
                   (\<lambda>w. writeLine (decreaseLevel w) ''}''))
             else Done w1) = Done w'"
    by (auto simp: writeInterfaceNode.simps Let_def andThen_Done
        split: sum.splits prod.splits option.splits)
  have l1: "level w1 = level w" using writeInterfaceMembers_level [OF m] .
  show ?case
  proof (cases "length (gatherOthers (map snd (children node))) > 0")
    case False
    then show ?thesis using r l1 by simp
  next
    case True
    then obtain w2 w3 where
      a: "writeLine w1 (''namespace '' @ name node @ '' {'') = Done w2"
      and b: "writeNodes env (increaseLevel w2) root (gatherOthers (map snd (children node)))
              = Done w3"
      and c: "writeLine (decreaseLevel w3) ''}'' = Done w'"
      using r by (auto simp: andThen_Done)
    have "level w3 = level (increaseLevel w2)"
      using "5.IH" [OF d at refl pr p refl m True a b] .
    then show ?thesis using l1 writeLine_level [OF a] writeLine_level [OF c] by simp
  qed
qed

subsection \<open>When the operations complete, and when they throw\<close>

lemma andThen_Thrown:
  "(\<And>w1. \<exists>e w'. f w1 = Thrown e w') \<Longrightarrow> \<exists>e w'. andThen r f = Thrown e w'"
  by (cases r) (simp_all add: andThen_def)

lemma writeLine_succeeds:
  "0 \<le> level w \<Longrightarrow> \<exists>w'. writeLine w s = Done w' \<and> level w' = level w"
  by (cases w) (simp_all add: writeLine_def getIndentation_def)

lemma forEach_writeLine_succeeds:
  "0 \<le> level w \<Longrightarrow>
   \<exists>w'. forEach xs (\<lambda>x w. writeLine w (f x)) w = Done w' \<and> level w' = level w"
proof (induction xs arbitrary: w)
  case Nil
  then show ?case by simp
next
  case (Cons x xs)
  obtain w1 where 1: "writeLine w (f x) = Done w1" "level w1 = level w"
    using writeLine_succeeds [OF Cons.prems] by blast
  then show ?case using Cons.IH [of w1] Cons.prems by (auto simp: andThen_def)
qed

lemma writeComments_succeeds:
  assumes "0 \<le> level w"
  shows "\<exists>w'. writeComments w cs = Done w' \<and> level w' = level w"
proof (cases "length cs > 0")
  case False
  then show ?thesis by (simp add: writeComments_def)
next
  case True
  obtain w1 where 1: "writeLine w ''/**'' = Done w1" "level w1 = level w"
    using writeLine_succeeds [OF assms] by blast
  obtain w2 where 2: "forEach cs (\<lambda>comment w. writeLine w ('' * '' @ comment)) w1 = Done w2"
      "level w2 = level w1"
    using forEach_writeLine_succeeds [of w1 cs "\<lambda>comment. '' * '' @ comment"] 1 assms by auto
  obtain w3 where 3: "writeLine w2 '' */'' = Done w3" "level w3 = level w2"
    using writeLine_succeeds [of w2] 1 2 assms by auto
  show ?thesis using True 1 2 3 by (simp add: writeComments_def andThen_def)
qed

lemma definitionProps_None:
  "definitionType d \<noteq> DefObject \<Longrightarrow> definitionProps d = None"
  by (cases d) simp_all

lemma writeEnumNode_throws:
  assumes "defn node = Some d" and "definitionType d \<noteq> DefObject"
  shows "\<exists>e w'. writeEnumNode w node = Thrown e w'"
proof (cases "definitionAttributes d")
  case None
  then show ?thesis using assms by (simp add: writeEnumNode_def)
next
  case (Some a)
  show ?thesis
    using assms Some definitionProps_None [OF assms(2)]
    by (auto simp: writeEnumNode_def intro!: andThen_Thrown)
qed

lemma writeEnumNode_TypeError:
  assumes "defn node = Some d" and "definitionAttributes d = Some a"
    and "definitionType d \<noteq> DefObject" and "0 \<le> level w"
  shows "\<exists>w'. writeEnumNode w node = Thrown TypeError w' \<and> level w' = level w + 1"
proof -
  obtain w1 where 1: "writeComments w (comments a) = Done w1" "level w1 = level w"
    using writeComments_succeeds [OF assms(4)] by blast
  obtain w2 where 2: "writeLine w1 (''enum '' @ name node @ '' {'') = Done w2" "level w2 = level w1"
    using writeLine_succeeds [of w1] 1 assms(4) by auto
  show ?thesis
    using assms 1 2 definitionProps_None [OF assms(3)]
    by (simp add: writeEnumNode_def andThen_def)
qed

lemma writeNodes_throws:
  "node \<in> set nodes \<Longrightarrow> (\<And>w. \<exists>e w'. writeNode env w root node = Thrown e w') \<Longrightarrow>
   \<exists>e w'. writeNodes env w root nodes = Thrown e w'"
proof (induction nodes arbitrary: w)
  case Nil
  then show ?case by simp
next
  case (Cons n ns)
  show ?case
  proof (cases "writeNode env w root n")
    case (Thrown e w1)
    then show ?thesis by (simp add: andThen_def)
  next
    case (Done w1)
    then have "n \<noteq> node" using Cons.prems(2) [of w] by auto
    then have "node \<in> set ns" using Cons.prems(1) by simp
    then show ?thesis using Cons.IH [of w1] Cons.prems(2) Done by (simp add: andThen_def)
  qed
qed

lemma writeInterfaceNode_without_prototype:
  "map_of (children node) ''prototype'' = None \<Longrightarrow>
   writeInterfaceNode env w root node = Thrown TypeError w"
  by (simp add: writeInterfaceNode.simps split: option.splits)

lemma gatherStaticMembers_append_prototype:
  "name p = ''prototype'' \<Longrightarrow> gatherStaticMembers (cs @ [p]) = gatherStaticMembers cs"
  by (induction cs) (simp_all split: option.splits sum.splits)

lemma writeFunctionNode_same:
  "writeFunctionNode env w (Node nm d cs') keyword isConstructor =
   writeFunctionNode env w (Node nm d cs) keyword isConstructor"
  by (simp add: writeFunctionNode_def Let_def cong: option.case_cong)

lemma writeClassMembers_same:
  "writeClassMembers env w (Node nm d cs') sp sm ps ms =
   writeClassMembers env w (Node nm d cs) sp sm ps ms"
  by (simp add: writeClassMembers_def Let_def
      writeFunctionNode_same [where cs' = cs' and cs = cs] cong: option.case_cong)

lemma writeClassNode_default_prototype:
  assumes "map_of (children node) ''prototype'' = None"
  shows "writeClassNode env w root node =
         writeClassNode env w root
           (Node (name node) (defn node)
              (children node @ [(''prototype'', Node ''prototype'' None [])]))"
proof (cases node)
  case (Node nm d cs)
  then show ?thesis
    using assms
    by (simp add: writeClassNode.simps map_add_def gatherStaticMembers_append_prototype
        writeClassMembers_same [where cs' = "cs @ [(''prototype'', Node ''prototype'' None [])]"
          and cs = cs]
        split: sum.splits prod.splits cong: if_cong)
qed

lemma writeFunctionNode_succeeds:
  assumes "defn node = Some d" and "definitionAttributes d = Some a"
    and "definitionParams d = Some ps" and "0 \<le> level w"
  shows "\<exists>w'. writeFunctionNode env w node keyword isConstructor = Done w' \<and> level w' = level w"
proof -
  obtain w1 where 1: "writeComments w (comments a) = Done w1" "level w1 = level w"
    using writeComments_succeeds [OF assms(4)] by blast
  then have "0 \<le> level w1" using assms(4) by simp
  from writeLine_succeeds [OF this] show ?thesis
    using assms 1 by (simp add: writeFunctionNode_def andThen_def Let_def)
qed

lemma forEach_succeeds:
  "(\<And>x v. x \<in> set xs \<Longrightarrow> 0 \<le> level v \<Longrightarrow> \<exists>v'. body x v = Done v' \<and> level v' = level v) \<Longrightarrow>
   0 \<le> level w \<Longrightarrow> \<exists>w'. forEach xs body w = Done w' \<and> level w' = level w"
proof (induction xs arbitrary: w)
  case Nil
  then show ?case by simp
next
  case (Cons x xs)
  obtain w1 where 1: "body x w = Done w1" "level w1 = level w"
    using Cons.prems(1) [of x w] Cons.prems(2) by auto
  have "\<exists>w'. forEach xs body w1 = Done w' \<and> level w' = level w1"
  proof (rule Cons.IH)
    fix y v
    assume "y \<in> set xs" and "0 \<le> level v"
    then show "\<exists>v'. body y v = Done v' \<and> level v' = level v"
      using Cons.prems(1) [of y v] by simp
  next
    show "0 \<le> level w1" using 1 Cons.prems(2) by simp
  qed
  then show ?case using 1 by (auto simp: andThen_def)
qed

lemma writePropertyNode_succeeds:
  assumes "defn p = Some d" and "definitionAttributes d = Some a" and "0 \<le> level w"
  shows "\<exists>w'. writePropertyNode env prefix p w = Done w' \<and> level w' = level w"
  using assms writeLine_succeeds [OF assms(3)]
  by (simp add: writePropertyNode_def Let_def)

lemma definitionParams_Some:
  "definitionType d = DefFunction \<Longrightarrow> \<exists>xs. definitionParams d = Some xs"
  by (cases d) simp_all

lemma gatherStaticMembers_defined:
  "gatherStaticMembers cs = Inr (sp, sm, os) \<Longrightarrow> n \<in> set sp \<union> set sm \<union> set os \<Longrightarrow>
   \<exists>d a. defn n = Some d \<and> definitionAttributes d = Some a"
proof (induction cs arbitrary: sp sm os)
  case Nil
  then show ?case by simp
next
  case (Cons c cs)
  show ?case
  proof (cases "name c = ''prototype''")
    case True
    then show ?thesis using Cons by simp
  next
    case False
    then obtain d t sp' sm' os' where
      d: "defn c = Some d" and t: "resolvedType d = Inr t"
      and r: "gatherStaticMembers cs = Inr (sp', sm', os')"
      using Cons.prems(1) by (auto split: option.splits sum.splits)
    have c: "\<exists>a. definitionAttributes d = Some a"
      using t by (auto simp: resolvedType_def split: option.splits)
    have "n = c \<or> n \<in> set sp' \<union> set sm' \<union> set os'"
      using Cons.prems False d t r by (auto split: if_splits)
    then show ?thesis using c d Cons.IH [OF r] by auto
  qed
qed

lemma writeClassMembers_succeeds:
  assumes "defn node = Some d" and "definitionAttributes d = Some a"
    and "definitionParams d = Some xs"
    and sp: "\<And>p. p \<in> set sp \<union> set ps \<Longrightarrow> \<exists>d a. defn p = Some d \<and> definitionAttributes d = Some a"
    and sm: "\<And>m. m \<in> set sm \<union> set ms \<Longrightarrow>
          \<exists>d a ys. defn m = Some d \<and> definitionAttributes d = Some a \<and> definitionParams d = Some ys"
    and "0 \<le> level w"
  shows "\<exists>w'. writeClassMembers env w node sp sm ps ms = Done w' \<and> level w' = level w"
proof -
  let ?cls = "''class '' @ (name node @
                      (case extends a of
                         None \<Rightarrow> []
                       | Some t \<Rightarrow> '' extends '' @ toString env t) @
                      (case implements a of
                         None \<Rightarrow> []
                       | Some t \<Rightarrow> '' implements '' @ toString env t)) @ '' {''"
  have prp: "\<exists>v'. writePropertyNode env prefix p v = Done v' \<and> level v' = level v"
    if "p \<in> set sp \<union> set ps" and "0 \<le> level v" for p v prefix
    using sp [OF that(1)] writePropertyNode_succeeds [OF _ _ that(2)] by blast
  have meth: "\<exists>v'. writeFunctionNode env v m keyword False = Done v' \<and> level v' = level v"
    if "m \<in> set sm \<union> set ms" and "0 \<le> level v" for m v keyword
    using sm [OF that(1)] writeFunctionNode_succeeds [OF _ _ _ that(2)] by blast
  obtain w1 where 1: "writeLine w ?cls = Done w1" "level w1 = level w"
    using writeLine_succeeds [OF assms(6)] by blast
  have l1: "0 \<le> level (increaseLevel w1)" using 1 assms(6) by simp
  obtain w2 where 2: "forEach sp (writePropertyNode env ''static '') (increaseLevel w1) = Done w2"
      "level w2 = level (increaseLevel w1)"
    using forEach_succeeds [of sp "writePropertyNode env ''static ''" "increaseLevel w1"] prp l1
    by auto
  have l2: "0 \<le> level w2" using 2 l1 by simp
  obtain w3 where 3: "forEach sm (\<lambda>methodNode w. writeFunctionNode env w methodNode (Some ''static'') False) w2 = Done w3"
      "level w3 = level w2"
    using forEach_succeeds [of sm "\<lambda>methodNode w. writeFunctionNode env w methodNode (Some ''static'') False" w2]
      meth l2 by auto
  have l3: "0 \<le> level w3" using 3 l2 by simp
  obtain w4 where 4: "forEach ps (writePropertyNode env []) w3 = Done w4" "level w4 = level w3"
    using forEach_succeeds [of ps "writePropertyNode env []" w3] prp l3 by auto
  have l4: "0 \<le> level w4" using 4 l3 by simp
  obtain w5 where 5: "writeFunctionNode env w4 node None True = Done w5" "level w5 = level w4"
    using writeFunctionNode_succeeds [OF assms(1) assms(2) assms(3) l4] by blast
  have l5: "0 \<le> level w5" using 5 l4 by simp
  obtain w6 where 6: "forEach ms (\<lambda>methodNode w. writeFunctionNode env w methodNode None False) w5 = Done w6"
      "level w6 = level w5"
    using forEach_succeeds [of ms "\<lambda>methodNode w. writeFunctionNode env w methodNode None False" w5]
      meth l5 by auto
  have l6: "0 \<le> level (decreaseLevel w6)" using 1 2 3 4 5 6 assms(6) by simp
  obtain w7 where 7: "writeLine (decreaseLevel w6) ''}'' = Done w7" "level w7 = level (decreaseLevel w6)"
    using writeLine_succeeds [OF l6] by blast
  have "writeClassMembers env w node sp sm ps ms = Done w7"
    using assms(1) assms(2) 1 2 3 4 5 6 7 by (simp add: writeClassMembers_def andThen_def)
  then show ?thesis using 1 2 3 4 5 6 7 by simp
qed

lemma writeClassNode_without_prototype_succeeds:
  assumes "map_of (children node) ''prototype'' = None"
    and "defn node = Some d" and "definitionAttributes d = Some a"
    and "definitionType d = DefFunction"
    and g: "gatherStaticMembers (map snd (children node)) = Inr (sp, sm, [])"
    and f: "\<forall>m \<in> set sm. \<exists>d'. defn m = Some d' \<and> definitionType d' = DefFunction"
    and "0 \<le> level w"
  shows "\<exists>w'. writeClassNode env w root node = Done w' \<and> level w' = level w"
proof -
  obtain xs where xs: "definitionParams d = Some xs"
    using definitionParams_Some [OF assms(4)] by blast
  have sp: "\<exists>d a. defn p = Some d \<and> definitionAttributes d = Some a" if "p \<in> set sp \<union> set []" for p
    using gatherStaticMembers_defined [OF g, of p] that by simp
  have sm: "\<exists>d a ys. defn m = Some d \<and> definitionAttributes d = Some a \<and> definitionParams d = Some ys"
    if m: "m \<in> set sm \<union> set []" for m
  proof -
    obtain d' a' where 1: "defn m = Some d'" "definitionAttributes d' = Some a'"
      using gatherStaticMembers_defined [OF g, of m] m by auto
    have "m \<in> set sm" using m by simp
    then have "definitionType d' = DefFunction" using f 1 by auto
    then show ?thesis using 1 definitionParams_Some by blast
  qed
  obtain w1 where "writeClassMembers env w node sp sm [] [] = Done w1" "level w1 = level w"
    using writeClassMembers_succeeds [OF assms(2) assms(3) xs sp sm assms(7)] by blast
  then show ?thesis
    using assms(1) g by (simp add: writeClassNode.simps andThen_def)
qed

subsection \<open>Level restoration, fatal enums, missing prototypes, member sorting\<close>

text \<open>
  C5, as stated, fails for a node whose emission throws. The node \<^verbatim>\<open>ns.Color\<close>,
  annotated as an enum with a property definition, is emitted from level 0:
  \<^verbatim>\<open>writeEnumNode\<close> writes the opening line, increases the level and then throws on the
  missing \<^verbatim>\<open>props\<close>. Nothing decreases the level again (the emitter has no
  \<^verbatim>\<open>try\<close>/\<^verbatim>\<open>finally\<close>), so the writer is left at level 1.
\<close>

theorem throwing_emission_leaves_level_raised:
  "writeNode sampleEnv (StringWriter 0 []) [] badEnumNode
     = Thrown TypeError (StringWriter 1 ''enum Color {\<newline>'')
   \<and> level (StringWriter 1 ''enum Color {\<newline>'') \<noteq> level (StringWriter 0 [])"
  by (simp add: writeNode.simps badEnumNode_def emitter_defs sample_defs)

text \<open>
  C5, amended. Whenever the emission of a node, or of a sequence of nodes, returns
  (does not throw), the indentation level of the writer is what it was before, and so
  is the indentation of the next line. In particular, when a line is written and then
  a class is emitted (with or without its trailing namespace block) and the emission
  returns, the writer is back at the level, and at the indentation, at which the line
  before the class was written.
\<close>

theorem emission_restores_level:
  "(writeNode env w root node = Done w' \<longrightarrow>
      level w' = level w \<and> getIndentation w' = getIndentation w)
   \<and> (writeNodes env w root nodes = Done w' \<longrightarrow>
      level w' = level w \<and> getIndentation w' = getIndentation w)
   \<and> (writeLine w before = Done w1 \<and> writeClassNode env w1 root node = Done w2 \<longrightarrow>
      level w2 = level w \<and> getIndentation w2 = getIndentation w)"
  using level_restored(1) [of env w root node w'] level_restored(2) [of env w root nodes w']
    level_restored(3) [of env w1 root node w2] writeLine_level [of w before w1]
  by (auto simp: getIndentation_def)

theorem emission_restores_level_witness:
  "writeNodes sampleEnv (StringWriter 1 []) []
     [constNode ''a'', classWithNamespace, constNode ''b'']
   = Done (StringWriter 1
       ''  const a: number;\<newline>  class Foo {\<newline>    constructor();\<newline>  }\<newline>  namespace Foo {\<newline>    enum Kind {\<newline>      A,\<newline>      B,\<newline>    }\<newline>  }\<newline>  const b: number;\<newline>'')
   \<and> getIndentation (StringWriter 1
       ''  const a: number;\<newline>  class Foo {\<newline>    constructor();\<newline>  }\<newline>  namespace Foo {\<newline>    enum Kind {\<newline>      A,\<newline>      B,\<newline>    }\<newline>  }\<newline>  const b: number;\<newline>'')
     = getIndentation (StringWriter 1 [])"
proof -
  have e: "writeNodes sampleEnv (StringWriter 1 []) []
     [constNode ''a'', classWithNamespace, constNode ''b'']
   = Done (StringWriter 1
       ''  const a: number;\<newline>  class Foo {\<newline>    constructor();\<newline>  }\<newline>  namespace Foo {\<newline>    enum Kind {\<newline>      A,\<newline>      B,\<newline>    }\<newline>  }\<newline>  const b: number;\<newline>'')"
    by (simp add: writeNode.simps writeClassNode.simps constNode_def classWithNamespace_def
        kindNode_def emitter_defs sample_defs eval_nat_numeral)
  show ?thesis
    using e emission_restores_level
      [where env = sampleEnv and w = "StringWriter 1 []" and root = "[]"
         and nodes = "[constNode ''a'', classWithNamespace, constNode ''b'']"]
    by simp
qed

text \<open>
  C4. A node whose attributes classify it as an enum and whose definition is not an
  object definition cannot be emitted: \<^verbatim>\<open>writeNode\<close> throws; with a level that is not
  negative it throws the TypeError of iterating the missing \<^verbatim>\<open>props\<close>, after the opening
  line, with the level increased. The exception ends every \<^verbatim>\<open>writeNodes\<close> over a
  sequence that holds the node, so \<^verbatim>\<open>generateTypeDefinitions\<close> returns no text and
  \<^verbatim>\<open>writeTypeDefinitions\<close> throws for a root that holds it: nothing is emitted after it.
\<close>

theorem enum_without_object_definition_is_fatal:
  assumes "defn node = Some d" and "definitionAttributes d = Some a"
    and "type a = Some Enum" and "definitionType d \<noteq> DefObject"
  shows "(\<exists>e w'. writeNode env w root node = Thrown e w')
     \<and> (0 \<le> level w \<longrightarrow>
          (\<exists>w'. writeNode env w root node = Thrown TypeError w' \<and> level w' = level w + 1))
     \<and> (node \<in> set nodes \<longrightarrow> (\<exists>e w'. writeNodes env w root nodes = Thrown e w'))
     \<and> (node \<in> snd ` set definitionRoot \<longrightarrow>
          (\<exists>e. generateTypeDefinitions env definitionRoot = Inl e)
          \<and> (\<exists>e w'. writeTypeDefinitions env sink definitionRoot = Thrown e w'))"
proof -
  have n: "writeNode env v r node = writeEnumNode v node" for v r
    using assms by (simp add: writeNode.simps resolvedType_def)
  have t: "\<exists>e w'. writeNode env v r node = Thrown e w'" for v r
    using writeEnumNode_throws [OF assms(1) assms(4)] n by simp
  have l: "node \<in> set ns \<Longrightarrow> \<exists>e w'. writeNodes env v r ns = Thrown e w'" for v r ns
    using writeNodes_throws [of node ns env r v] t by blast
  have "node \<in> snd ` set definitionRoot \<Longrightarrow>
        \<exists>e. generateTypeDefinitions env definitionRoot = Inl e"
    using l [of "map snd definitionRoot" "StringWriter 0 []" definitionRoot]
    by (auto simp: generateTypeDefinitions_def)
  moreover have "node \<in> snd ` set definitionRoot \<Longrightarrow>
        \<exists>e w'. writeTypeDefinitions env sink definitionRoot = Thrown e w'"
    using l [of "map snd definitionRoot" "StreamWriter 0 sink" definitionRoot]
    by (auto simp: writeTypeDefinitions_def)
  ultimately show ?thesis
    using t l writeEnumNode_TypeError [OF assms(1) assms(2) assms(4)] n by auto
qed

theorem enum_without_object_definition_is_fatal_witness:
  "writeNode sampleEnv (StringWriter 0 []) [] badEnumNode
     = Thrown TypeError (StringWriter 1 ''enum Color {\<newline>'')
   \<and> (\<exists>e. generateTypeDefinitions sampleEnv
              [(''a'', constNode ''a''), (''Color'', badEnumNode), (''b'', constNode ''b'')] = Inl e)"
proof -
  have d: "defn badEnumNode =
           Some (PropertyDefinition [''ns'', ''Color''] (Some (typedAttributes Enum)))"
    by (simp add: badEnumNode_def)
  have a: "definitionAttributes (PropertyDefinition [''ns'', ''Color''] (Some (typedAttributes Enum)))
           = Some (typedAttributes Enum)"
    by simp
  have t: "type (typedAttributes Enum) = Some Enum"
    by (simp add: typedAttributes_def)
  have k: "definitionType (PropertyDefinition [''ns'', ''Color''] (Some (typedAttributes Enum)))
           \<noteq> DefObject"
    by simp
  have e: "writeNode sampleEnv (StringWriter 0 []) [] badEnumNode
     = Thrown TypeError (StringWriter 1 ''enum Color {\<newline>'')"
    by (simp add: writeNode.simps badEnumNode_def emitter_defs sample_defs)
  show ?thesis
    using e enum_without_object_definition_is_fatal [OF d a t k,
        where env = sampleEnv and w = "StringWriter 0 []" and root = "[]" and nodes = "[]"
          and definitionRoot =
            "[(''a'', constNode ''a''), (''Color'', badEnumNode), (''b'', constNode ''b'')]"
          and sink = "[]"]
    by simp
qed

text \<open>
  C10. For a node without a \<^verbatim>\<open>prototype\<close> child, \<^verbatim>\<open>writeInterfaceNode\<close> throws a TypeError
  before it writes anything (so does \<^verbatim>\<open>writeNode\<close> on a node classified as an
  interface), while \<^verbatim>\<open>writeClassNode\<close> does exactly what it does for the same node with
  an empty \<^verbatim>\<open>prototype\<close> child added. The class emission then completes if the level is
  not negative, the definition of the node is a function definition with attributes
  (the constructor) and the children of the node are static data and static functions
  whose definitions are function definitions; a class that is only a constructor is
  the case without children.
\<close>

theorem missing_prototype_child:
  assumes "map_of (children node) ''prototype'' = None"
  shows "writeInterfaceNode env w root node = Thrown TypeError w
     \<and> (defn node = Some d \<and> definitionAttributes d = Some a \<and> type a = Some Interface \<longrightarrow>
          writeNode env w root node = Thrown TypeError w)
     \<and> writeClassNode env w root node =
         writeClassNode env w root
           (Node (name node) (defn node)
              (children node @ [(''prototype'', Node ''prototype'' None [])]))
     \<and> (defn node = Some d \<and> definitionAttributes d = Some a \<and> definitionType d = DefFunction
          \<and> gatherStaticMembers (map snd (children node)) = Inr (sp, sm, [])
          \<and> (\<forall>m \<in> set sm. \<exists>d'. defn m = Some d' \<and> definitionType d' = DefFunction)
          \<and> 0 \<le> level w \<longrightarrow>
          (\<exists>w'. writeClassNode env w root node = Done w' \<and> level w' = level w)
          \<and> (type a = Some Class \<longrightarrow>
               (\<exists>w'. writeNode env w root node = Done w' \<and> level w' = level w)))"
proof -
  have i: "writeInterfaceNode env w root node = Thrown TypeError w"
    using writeInterfaceNode_without_prototype [OF assms] .
  have n: "writeNode env w root node = Thrown TypeError w"
    if "defn node = Some d" and "definitionAttributes d = Some a" and "type a = Some Interface"
    using that i by (simp add: writeNode.simps resolvedType_def)
  have c: "\<exists>w'. writeClassNode env w root node = Done w' \<and> level w' = level w"
    if "defn node = Some d" and "definitionAttributes d = Some a"
      and "definitionType d = DefFunction"
      and "gatherStaticMembers (map snd (children node)) = Inr (sp, sm, [])"
      and "\<forall>m \<in> set sm. \<exists>d'. defn m = Some d' \<and> definitionType d' = DefFunction"
      and "0 \<le> level w"
    using writeClassNode_without_prototype_succeeds [OF assms that] .
  have "writeNode env w root node = writeClassNode env w root node"
    if "defn node = Some d" and "definitionAttributes d = Some a" and "type a = Some Class"
    using that by (simp add: writeNode.simps resolvedType_def)
  then show ?thesis
    using i n c writeClassNode_default_prototype [OF assms, of env w root] by auto
qed

theorem missing_prototype_child_witness:
  "writeNode sampleEnv (StringWriter 0 []) [] interfaceWithoutPrototype
     = Thrown TypeError (StringWriter 0 [])
   \<and> writeNode sampleEnv (StringWriter 0 []) [] classOnlyConstructor
     = Done (StringWriter 0 ''class Foo {\<newline>  constructor();\<newline>}\<newline>'')
   \<and> (\<exists>w'. writeClassNode sampleEnv (StringWriter 0 []) [] classOnlyConstructor = Done w'
          \<and> level w' = 0)"
proof -
  have p: "map_of (children interfaceWithoutPrototype) ''prototype'' = None"
    and q: "map_of (children classOnlyConstructor) ''prototype'' = None"
    by (simp_all add: interfaceWithoutPrototype_def classOnlyConstructor_def)
  have e: "writeNode sampleEnv (StringWriter 0 []) [] classOnlyConstructor
     = Done (StringWriter 0 ''class Foo {\<newline>  constructor();\<newline>}\<newline>'')"
    by (simp add: writeNode.simps writeClassNode.simps classOnlyConstructor_def
        constructorDefinition_def emitter_defs sample_defs eval_nat_numeral)
  have "writeNode sampleEnv (StringWriter 0 []) [] interfaceWithoutPrototype
     = Thrown TypeError (StringWriter 0 [])"
    using missing_prototype_child [OF p,
        where d = "FunctionDefinition [''Thing''] [] None None None None
                     (Some (typedAttributes Interface))"
          and a = "typedAttributes Interface" and env = sampleEnv and w = "StringWriter 0 []"
          and root = "[]" and sp = "[]" and sm = "[]"]
    by (simp add: interfaceWithoutPrototype_def typedAttributes_def)
  moreover have "\<exists>w'. writeClassNode sampleEnv (StringWriter 0 []) [] classOnlyConstructor = Done w'
          \<and> level w' = 0"
    using missing_prototype_child [OF q,
        where d = constructorDefinition and a = "typedAttributes Class" and env = sampleEnv
          and w = "StringWriter 0 []" and root = "[]" and sp = "[]" and sm = "[]",
        THEN conjunct2, THEN conjunct2, THEN conjunct2]
    by (simp add: classOnlyConstructor_def constructorDefinition_def)
  ultimately show ?thesis using e by simp
qed

text \<open>
  C1: what the code does. The object definition \<^verbatim>\<open>Foo.prototype.options\<close>, annotated
  \<^verbatim>\<open>@type {Object}\<close>, has the resolved kind \<^verbatim>\<open>property\<close>. As a prototype child it is put
  neither into the instance data nor into the instance methods, because the prototype
  loop switches on the structural kind \<^verbatim>\<open>object\<close>: the emitted class has no member
  \<^verbatim>\<open>options\<close>. As a direct child of the class the same node is static data, because
  that loop switches on the resolved kind: the emitted class has the member
  \<^verbatim>\<open>static options: Object;\<close>.
\<close>

theorem prototype_child_sorted_by_structural_kind:
  "resolvedType (ObjectDefinition [''Foo'', ''prototype'', ''options''] []
          (Some ((initialAttributes [])
             \<lparr>type := Some Property, propType := Some (NameExpression ''Object'')\<rparr>)))
     = Inr ''property''
   \<and> gatherPrototypeMembers [optionsNode] = Inr ([], [])
   \<and> gatherStaticMembers [optionsNode] = Inr ([optionsNode], [], [])
   \<and> writeNode sampleEnv (StringWriter 0 []) [] classWithOptions
       = Done (StringWriter 0 ''class Foo {\<newline>  constructor();\<newline>}\<newline>'')
   \<and> writeNode sampleEnv (StringWriter 0 []) [] classWithStaticOptions
       = Done (StringWriter 0
           ''class Foo {\<newline>  static options: Object;\<newline>  constructor();\<newline>}\<newline>'')"
  by (simp add: writeNode.simps writeClassNode.simps optionsNode_def classWithOptions_def
      classWithStaticOptions_def constructorDefinition_def emitter_defs sample_defs
      eval_nat_numeral)

end
